theory Spec2Isabelle
  imports Complex_Main "HOL-Library.Multiset" "HOL-Library.Word"
begin

section \<open>JavaScript values\<close>

text \<open>
  The values the program handles come from \<^verbatim>\<open>JSON.parse\<close>, from DOM input fields and from
  its own literals. A string is the list of its UTF-16 code units; the model covers the
  code units below 256 (the 8-bit \<^typ>\<open>char\<close>), which is enough for every literal of the
  program. A number is an integer from \<open>-2^53\<close> up to \<open>2^53 - 1\<close>, the signed value of a
  54-bit word: these are numbers that JavaScript holds exactly and prints digit by digit.
  Fractions and larger numbers are not values of the model.
\<close>

datatype jsval =
    JUndefined
  | JNull
  | JBool bool
  | JNum "54 word"
  | JStr string
  | JArr "jsval list"
  | JObj "(string \<times> jsval) list"

datatype error = TypeError | SyntaxError

text \<open>Truthiness, and \<^verbatim>\<open>a || b\<close>.\<close>

fun truthy :: "jsval \<Rightarrow> bool" where
  "truthy JUndefined = False"
| "truthy JNull = False"
| "truthy (JBool b) = b"
| "truthy (JNum n) = (n \<noteq> 0)"
| "truthy (JStr s) = (s \<noteq> [])"
| "truthy (JArr xs) = True"
| "truthy (JObj kvs) = True"

definition js_or :: "jsval \<Rightarrow> jsval \<Rightarrow> jsval" where
  "js_or a b = (if truthy a then a else b)"

text \<open>
  \<^verbatim>\<open>a === b\<close>, \<^verbatim>\<open>Array.prototype.includes\<close> and \<^verbatim>\<open>indexOf\<close> compare primitives by value.
  Objects and arrays are compared by reference in JavaScript; the model has no references
  and compares them by structure, which agrees with the program as long as two distinct
  objects used as ids are not structurally equal; it is exact whenever one of the two
  values is a primitive.
\<close>

definition strict_eq :: "jsval \<Rightarrow> jsval \<Rightarrow> bool" where
  "strict_eq a b = (a = b)"

definition primitive :: "jsval \<Rightarrow> bool" where
  "primitive v = (case v of JArr xs \<Rightarrow> False | JObj kvs \<Rightarrow> False | _ \<Rightarrow> True)"

definition js_includes :: "string list \<Rightarrow> jsval \<Rightarrow> bool" where
  "js_includes xs v = (case v of JStr s \<Rightarrow> s \<in> set xs | _ \<Rightarrow> False)"

text \<open>\<^verbatim>\<open>Array.isArray\<close>.\<close>

fun isArray :: "jsval \<Rightarrow> bool" where
  "isArray (JArr xs) = True"
| "isArray _ = False"

text \<open>
  Reading a property \<^verbatim>\<open>v.k\<close> of a value that is neither \<^verbatim>\<open>null\<close> nor \<^verbatim>\<open>undefined\<close>
  (those two throw a TypeError, which every caller tests first). The program reads only the
  keys id, name, games, title, status, note and difficulty, none of which a string, number,
  boolean or array has. An object lists each of its keys once.
\<close>

fun get_prop :: "jsval \<Rightarrow> string \<Rightarrow> jsval" where
  "get_prop (JObj kvs) k = (case map_of kvs k of Some v \<Rightarrow> v | None \<Rightarrow> JUndefined)"
| "get_prop _ k = JUndefined"

definition nullish :: "jsval \<Rightarrow> bool" where
  "nullish v = (v = JNull \<or> v = JUndefined)"

subsection \<open>Conversion to string\<close>

definition digit_char :: "nat \<Rightarrow> char" where
  "digit_char d = ''0123456789'' ! d"

text \<open>
  \<^verbatim>\<open>Number.prototype.toString()\<close> on an integer: the decimal digits, least significant
  digit produced first and put in front of those already produced.
\<close>

fun digits_acc :: "nat \<Rightarrow> string \<Rightarrow> string" where
  "digits_acc n acc =
     (if n < 10 then digit_char n # acc
      else digits_acc (n div 10) (digit_char (n mod 10) # acc))"

declare digits_acc.simps [simp del]

definition nat_toString :: "nat \<Rightarrow> string" where
  "nat_toString n = digits_acc n []"

definition int_toString :: "int \<Rightarrow> string" where
  "int_toString i = (if 0 \<le> i then nat_toString (nat i) else CHR ''-'' # nat_toString (nat (- i)))"

fun join_comma :: "string list \<Rightarrow> string" where
  "join_comma [] = []"
| "join_comma [s] = s"
| "join_comma (s # t # ss) = s @ '','' @ join_comma (t # ss)"

text \<open>Sequencing of computations that may throw: the first exception wins.\<close>

definition and_then :: "error + 'a \<Rightarrow> ('a \<Rightarrow> error + 'b) \<Rightarrow> error + 'b" where
  "and_then x f = (case x of Inl e \<Rightarrow> Inl e | Inr a \<Rightarrow> f a)"

fun collect :: "(error + 'a) list \<Rightarrow> error + 'a list" where
  "collect [] = Inr []"
| "collect (x # xs) =
     (case x of
        Inl e \<Rightarrow> Inl e
      | Inr a \<Rightarrow> (case collect xs of Inl e \<Rightarrow> Inl e | Inr rest \<Rightarrow> Inr (a # rest)))"

text \<open>
  \<^verbatim>\<open>String(v)\<close>, which is also the conversion a template literal applies. An array is
  joined with commas, \<^verbatim>\<open>null\<close> and \<^verbatim>\<open>undefined\<close> elements printing as nothing. An object
  is converted through its \<^verbatim>\<open>toString\<close> method: a parsed object that has a key
  \<^verbatim>\<open>toString\<close> of its own hides the inherited method with a value that cannot be called,
  and the conversion throws a TypeError; every other object prints as
  \<^verbatim>\<open>[object Object]\<close>.
\<close>

fun to_string :: "jsval \<Rightarrow> error + string" where
  "to_string JUndefined = Inr ''undefined''"
| "to_string JNull = Inr ''null''"
| "to_string (JBool b) = Inr (if b then ''true'' else ''false'')"
| "to_string (JNum n) = Inr (int_toString (sint n))"
| "to_string (JStr s) = Inr s"
| "to_string (JArr xs) =
     (case collect (map (\<lambda>x. if nullish x then Inr [] else to_string x) xs) of
        Inl e \<Rightarrow> Inl e
      | Inr parts \<Rightarrow> Inr (join_comma parts))"
| "to_string (JObj kvs) =
     (if map_of kvs ''toString'' = None then Inr ''[object Object]'' else Inl TypeError)"

definition stringable :: "jsval \<Rightarrow> bool" where
  "stringable v = (case to_string v of Inl e \<Rightarrow> False | Inr s \<Rightarrow> True)"

text \<open>A template literal with one substitution: \<^verbatim>\<open>`pre${v}post`\<close>.\<close>

definition interpolate :: "string \<Rightarrow> jsval \<Rightarrow> string \<Rightarrow> error + string" where
  "interpolate pre v post = and_then (to_string v) (\<lambda>s. Inr (pre @ s @ post))"

subsection \<open>Whitespace and trimming\<close>

text \<open>The white space and line terminator code units below 256.\<close>

definition is_space :: "char \<Rightarrow> bool" where
  "is_space c = (of_char c \<in> {9, 10, 11, 12, 13, 32, 160 :: nat})"

definition trim :: "string \<Rightarrow> string" where
  "trim s = rev (dropWhile is_space (rev (dropWhile is_space s)))"

section \<open>EnumOptionsTable.js\<close>

abbreviation (input) dq :: char where "dq \<equiv> CHR 0x22"
abbreviation (input) a_tilde :: char where "a_tilde \<equiv> CHR 0xE3"
abbreviation (input) a_acute :: char where "a_acute \<equiv> CHR 0xE1"
abbreviation (input) e_acute :: char where "e_acute \<equiv> CHR 0xE9"
abbreviation (input) i_acute :: char where "i_acute \<equiv> CHR 0xED"
abbreviation (input) c_cedil :: char where "c_cedil \<equiv> CHR 0xE7"

definition GameStatus :: "string list" where
  "GameStatus = [''N'' @ [a_tilde] @ ''o Iniciado'', ''Jogando'', ''Pausado'', ''Zerado'']"

definition GameNote :: "string list" where
  "GameNote = map nat_toString [0..<11]"

definition GameDifficulty :: "string list" where
  "GameDifficulty =
     [''F'', ''E-'', ''E'', ''E+'', ''D-'', ''D'', ''D+'', ''C-'', ''C'', ''C+'',
      ''B-'', ''B'', ''B+'', ''A-'', ''A'', ''A+'', ''S'', ''S+'']"

section \<open>The persisted data and the effects of the program\<close>

text \<open>The plain object \<^verbatim>\<open>GameRow.toJSON\<close> returns, which is what a tab's games array holds.\<close>

record game =
  g_id :: jsval
  g_title :: jsval
  g_status :: jsval
  g_note :: jsval
  g_difficulty :: jsval

text \<open>
  A tab of \<^verbatim>\<open>tabsData\<close>: \<^verbatim>\<open>{ id, name, games }\<close>, and whatever other properties an
  imported tab object carried (the spread \<^verbatim>\<open>...tab\<close> keeps them).
\<close>

record tab =
  t_id :: jsval
  t_name :: jsval
  t_games :: "game list"
  t_rest :: "(string \<times> jsval) list"

text \<open>What the program does to the outside, in order.\<close>

datatype effect =
    ConsoleWarn string "string list"
  | ConsoleError string
  | Alert string
  | Confirm nat nat
  | Saved "tab list"
  | RenderTabs "tab list" jsval
  | RenderTable "game list option"
  | OpenModal string jsval
  | CloseAllModals
  | Download "tab list"
  | Uncaught error

section \<open>GameRow.js\<close>

record GameRow =
  row_id :: jsval
  row_title :: jsval
  row_status :: jsval
  row_note :: jsval
  row_difficulty :: jsval

text \<open>
  The constructor. \<^verbatim>\<open>data = {}\<close> replaces only \<^verbatim>\<open>undefined\<close>; \<^verbatim>\<open>null.id\<close> throws.
  \<open>now\<close> is the value of \<^verbatim>\<open>Date.now()\<close>.
\<close>

definition GameRow_new :: "nat \<Rightarrow> jsval \<Rightarrow> error + GameRow" where
  "GameRow_new now data0 =
     (let data = (if data0 = JUndefined then JObj [] else data0) in
      if data = JNull then Inl TypeError
      else Inr \<lparr> row_id = js_or (get_prop data ''id'') (JStr (nat_toString now)),
                 row_title = js_or (get_prop data ''title'') (JStr []),
                 row_status = js_or (get_prop data ''status'') (JStr (GameStatus ! 0)),
                 row_note = js_or (get_prop data ''note'') (JStr (GameNote ! 0)),
                 row_difficulty = js_or (get_prop data ''difficulty'') (JStr (GameDifficulty ! 0)) \<rparr>)"

definition isValidStatus :: "jsval \<Rightarrow> bool" where
  "isValidStatus status = js_includes GameStatus status"

definition isValidNote :: "jsval \<Rightarrow> error + bool" where
  "isValidNote note = and_then (to_string note) (\<lambda>s. Inr (js_includes GameNote (JStr s)))"

definition isValidDifficulty :: "jsval \<Rightarrow> bool" where
  "isValidDifficulty difficulty = js_includes GameDifficulty difficulty"

text \<open>
  The three validating setters: an invalid value is logged and the field is kept. The
  warning prints the rejected value and the kept one, so it throws when either cannot be
  converted to a string.
\<close>

definition kept_warning :: "string \<Rightarrow> jsval \<Rightarrow> jsval \<Rightarrow> error + effect list" where
  "kept_warning label v old =
     and_then (to_string v) (\<lambda>s.
     and_then (to_string old) (\<lambda>t.
       Inr [ConsoleWarn (label @ [dq] @ s @ [dq] @ ''. Mantendo valor anterior: '' @ [dq] @ t @ [dq]) []]))"

definition set_status :: "jsval \<Rightarrow> GameRow \<Rightarrow> error + GameRow \<times> effect list" where
  "set_status v r =
     (if isValidStatus v then Inr (r\<lparr>row_status := v\<rparr>, [])
      else and_then (kept_warning (''Status inv'' @ [a_acute] @ ''lido: '') v (row_status r))
             (\<lambda>w. Inr (r, w)))"

definition set_note :: "jsval \<Rightarrow> GameRow \<Rightarrow> error + GameRow \<times> effect list" where
  "set_note v r =
     and_then (isValidNote v) (\<lambda>valid.
       if valid then Inr (r\<lparr>row_note := v\<rparr>, [])
       else and_then (kept_warning (''Nota inv'' @ [a_acute] @ ''lida: '') v (row_note r))
              (\<lambda>w. Inr (r, w)))"

definition set_difficulty :: "jsval \<Rightarrow> GameRow \<Rightarrow> error + GameRow \<times> effect list" where
  "set_difficulty v r =
     (if isValidDifficulty v then Inr (r\<lparr>row_difficulty := v\<rparr>, [])
      else and_then (kept_warning (''Dificuldade inv'' @ [a_acute] @ ''lida: '') v (row_difficulty r))
             (\<lambda>w. Inr (r, w)))"

text \<open>
  \<^verbatim>\<open>validate()\<close>. \<^verbatim>\<open>this.title.trim()\<close> throws a TypeError when the title is a truthy
  value that is not a string; \<^verbatim>\<open>String(note)\<close> and the messages, which print the value
  found invalid, throw when that value cannot be converted to a string.
\<close>

definition title_blank :: "jsval \<Rightarrow> error + bool" where
  "title_blank t =
     (if \<not> truthy t then Inr True
      else case t of JStr s \<Rightarrow> Inr (length (trim s) = 0) | _ \<Rightarrow> Inl TypeError)"

text \<open>One \<^verbatim>\<open>if (!valid) errors.push(message)\<close>; the message is built only when needed.\<close>

definition check_field :: "error + bool \<Rightarrow> error + string \<Rightarrow> error + string list" where
  "check_field valid message =
     and_then valid (\<lambda>ok. if ok then Inr [] else and_then message (\<lambda>m. Inr [m]))"

definition validate :: "GameRow \<Rightarrow> error + (bool \<times> string list)" where
  "validate r =
     and_then (title_blank (row_title r)) (\<lambda>blank.
     and_then (check_field (Inr (isValidStatus (row_status r)))
                 (interpolate (''Status '' @ [dq]) (row_status r)
                    ([dq] @ '' '' @ [e_acute] @ '' inv'' @ [a_acute] @ ''lido''))) (\<lambda>e2.
     and_then (check_field (isValidNote (row_note r))
                 (interpolate (''Nota '' @ [dq]) (row_note r)
                    ([dq] @ '' '' @ [e_acute] @ '' inv'' @ [a_acute] @ ''lida''))) (\<lambda>e3.
     and_then (check_field (Inr (isValidDifficulty (row_difficulty r)))
                 (interpolate (''Dificuldade '' @ [dq]) (row_difficulty r)
                    ([dq] @ '' '' @ [e_acute] @ '' inv'' @ [a_acute] @ ''lida''))) (\<lambda>e4.
       (let errors =
              (if blank then [''T'' @ [i_acute] @ ''tulo n'' @ [a_tilde] @ ''o pode estar vazio''] else [])
              @ e2 @ e3 @ e4
        in Inr (length errors = 0, errors))))))"

text \<open>
  \<^verbatim>\<open>updateProperty(property, value)\<close>: the name is checked against the four properties,
  the assignment \<^verbatim>\<open>this[property] = value\<close> goes through the setter (the title has none),
  and the method returns \<^verbatim>\<open>true\<close> after the assignment.
\<close>

definition validProperties :: "string list" where
  "validProperties = [''title'', ''status'', ''note'', ''difficulty'']"

definition assign :: "string \<Rightarrow> jsval \<Rightarrow> GameRow \<Rightarrow> error + GameRow \<times> effect list" where
  "assign property v r =
     (if property = ''title'' then Inr (r\<lparr>row_title := v\<rparr>, [])
      else if property = ''status'' then set_status v r
      else if property = ''note'' then set_note v r
      else set_difficulty v r)"

definition updateProperty ::
  "string \<Rightarrow> jsval \<Rightarrow> GameRow \<Rightarrow> error + bool \<times> GameRow \<times> effect list" where
  "updateProperty property v r =
     (if property \<notin> set validProperties
      then Inr (False, r, [ConsoleWarn (''Propriedade '' @ [dq] @ property @ [dq] @ '' n'' @ [a_tilde]
                                         @ ''o existe'') []])
      else and_then (assign property v r) (\<lambda>(r', w). Inr (True, r', w)))"

definition toJSON :: "GameRow \<Rightarrow> game" where
  "toJSON r = \<lparr> g_id = row_id r, g_title = row_title r, g_status = row_status r,
               g_note = row_note r, g_difficulty = row_difficulty r \<rparr>"

text \<open>The plain object as a JavaScript value, for passing it back to the constructor.\<close>

definition game_val :: "game \<Rightarrow> jsval" where
  "game_val g = JObj [(''id'', g_id g), (''title'', g_title g), (''status'', g_status g),
                      (''note'', g_note g), (''difficulty'', g_difficulty g)]"

definition fromJSON :: "nat \<Rightarrow> jsval \<Rightarrow> error + GameRow" where
  "fromJSON now data = GameRow_new now data"

text \<open>
  \<^verbatim>\<open>createDefault(index)\<close>: the object literal has no id, so the constructor makes one.
\<close>

definition createDefault :: "nat \<Rightarrow> nat \<Rightarrow> error + GameRow" where
  "createDefault now index =
     GameRow_new now (JObj [(''title'', JStr (''Novo Jogo '' @ nat_toString index)),
                            (''status'', JStr (GameStatus ! 0)),
                            (''note'', JStr (GameNote ! 0)),
                            (''difficulty'', JStr (GameDifficulty ! 0))])"

section \<open>TableManager.js\<close>

definition ROWS_PER_PAGE :: nat where
  "ROWS_PER_PAGE = 10"

text \<open>
  The four sortable columns (the keys of \<^verbatim>\<open>sortableColumns\<close> that \<^verbatim>\<open>handleSort\<close> is
  bound to) and the two directions.
\<close>

datatype column = Title | Status | Note | Difficulty

datatype direction = Asc | Desc

text \<open>
  The mutable state of the page: the controller's variables (\<^verbatim>\<open>tabsData\<close>,
  \<^verbatim>\<open>activeTabId\<close>, \<^verbatim>\<open>modalState\<close>), the fields of the one TableManager
  (\<^verbatim>\<open>currentPage\<close>, \<^verbatim>\<open>activeTab\<close>, \<^verbatim>\<open>sortConfig\<close>) and the trace of effects.
  \<^verbatim>\<open>activeTab\<close> is a reference to one of the tab objects of \<^verbatim>\<open>tabsData\<close>, so that a
  change to that tab is seen through it; the model keeps the position of the tab.
\<close>

record state =
  tabsData :: "tab list"
  activeTabId :: jsval
  tabToRenameId :: jsval
  tabToDeleteId :: jsval
  currentPage :: int
  activeTab :: "nat option"
  sortColumn :: "column option"
  sortDirection :: direction
  effects :: "effect list"

text \<open>A call either returns or throws; either way it leaves a state behind.\<close>

datatype outcome = Returned state | Threw error state

definition emit :: "effect list \<Rightarrow> state \<Rightarrow> state" where
  "emit es st = st\<lparr>effects := effects st @ es\<rparr>"

definition activeTabObj :: "state \<Rightarrow> tab option" where
  "activeTabObj st =
     (case activeTab st of
        None \<Rightarrow> None
      | Some i \<Rightarrow> if i < length (tabsData st) then Some (tabsData st ! i) else None)"

text \<open>\<^verbatim>\<open>Math.ceil(n / d)\<close> for two array lengths.\<close>

definition Math_ceil_div :: "nat \<Rightarrow> nat \<Rightarrow> int" where
  "Math_ceil_div n d = \<lceil>real n / real d\<rceil>"

definition getTotalPages :: "state \<Rightarrow> int" where
  "getTotalPages st =
     (case activeTabObj st of
        None \<Rightarrow> 1
      | Some t \<Rightarrow> Math_ceil_div (length (t_games t)) ROWS_PER_PAGE)"

subsection \<open>Sorting\<close>

text \<open>\<^verbatim>\<open>toLowerCase\<close> on code units below 256.\<close>

definition lower_char :: "char \<Rightarrow> char" where
  "lower_char c =
     (let n = (of_char c :: nat) in
      if (65 \<le> n \<and> n \<le> 90) \<or> (192 \<le> n \<and> n \<le> 222 \<and> n \<noteq> 215) then char_of (n + 32) else c)"

definition toLowerCase :: "string \<Rightarrow> string" where
  "toLowerCase s = map lower_char s"

text \<open>
  \<^verbatim>\<open>parseInt(v)\<close> with no radix: the argument is converted to a string, leading white
  space and a sign are dropped, \<^verbatim>\<open>0x\<close> selects base 16, and the longest prefix of digits is
  read. \<open>None\<close> is NaN.
\<close>

definition digit_of :: "nat \<Rightarrow> char \<Rightarrow> nat option" where
  "digit_of radix c =
     (let n = (of_char c :: nat);
          d = (if 48 \<le> n \<and> n \<le> 57 then n - 48
               else if 97 \<le> n \<and> n \<le> 122 then n - 87
               else if 65 \<le> n \<and> n \<le> 90 then n - 55
               else 36)
      in if d < radix then Some d else None)"

text \<open>
  The number \<^verbatim>\<open>parseInt\<close> returns is the double nearest to the integer it has read, ties
  going to the even significand of 53 bits; \<open>2^1024\<close> stands for \<^verbatim>\<open>Infinity\<close>, which is
  what an integer too large for a double becomes. (Past the twentieth digit of a decimal
  numeral an engine is free to read zeros; notes are numerals of one or two digits.)
\<close>

fun bit_length :: "nat \<Rightarrow> nat" where
  "bit_length n = (if n = 0 then 0 else Suc (bit_length (n div 2)))"

declare bit_length.simps [simp del]

definition to_double :: "nat \<Rightarrow> nat" where
  "to_double n =
     (let e = bit_length n - 53 in
      if e = 0 then n
      else (let q = n div 2 ^ e; r = n mod 2 ^ e; half = 2 ^ (e - 1);
                q' = (if half < r \<or> (r = half \<and> odd q) then q + 1 else q);
                v = q' * 2 ^ e
            in if 2 ^ 1024 \<le> v then 2 ^ 1024 else v))"

definition parseInt_string :: "string \<Rightarrow> int option" where
  "parseInt_string s =
     (let s0 = dropWhile is_space s;
          neg = (take 1 s0 = ''-'');
          s1 = (if take 1 s0 = ''+'' \<or> take 1 s0 = ''-'' then drop 1 s0 else s0);
          hex = (take 2 s1 = ''0x'' \<or> take 2 s1 = ''0X'');
          s2 = (if hex then drop 2 s1 else s1);
          radix = (if hex then 16 else 10);
          ds = takeWhile (\<lambda>d. d \<noteq> None) (map (digit_of radix) s2)
      in if ds = [] then None
         else Some ((if neg then - 1 else 1)
                    * int (to_double
                        (foldl (\<lambda>a d. a * radix + (case d of Some k \<Rightarrow> k | None \<Rightarrow> 0)) 0 ds))))"

definition parseInt :: "jsval \<Rightarrow> error + int option" where
  "parseInt v = and_then (to_string v) (\<lambda>s. Inr (parseInt_string s))"

text \<open>\<^verbatim>\<open>indexOf\<close> on an array of strings: the first position, or -1.\<close>

fun index_from :: "string list \<Rightarrow> string \<Rightarrow> int \<Rightarrow> int" where
  "index_from [] s i = - 1"
| "index_from (x # xs) s i = (if x = s then i else index_from xs s (i + 1))"

definition indexOf :: "string list \<Rightarrow> jsval \<Rightarrow> int" where
  "indexOf xs v = (case v of JStr s \<Rightarrow> index_from xs s 0 | _ \<Rightarrow> - 1)"

definition difficultyOrder :: "string list" where
  "difficultyOrder =
     [''F'', ''E-'', ''E'', ''E+'', ''D-'', ''D'', ''D+'', ''C-'', ''C'', ''C+'',
      ''B-'', ''B'', ''B+'', ''A-'', ''A'', ''A+'', ''S'', ''S+'']"

definition statusOrder :: "string list" where
  "statusOrder =
     [''N'' @ [a_tilde] @ ''o Iniciado'', ''Jogando'', ''Pausado'', ''Zerado'', ''Abandonado'']"

text \<open>
  The value a record is compared by, after the comparator's normalisation: a string for
  the title, a number for the other three columns. \<^verbatim>\<open>(aValue || "").toLowerCase()\<close>
  throws a TypeError when the title is a truthy value that is not a string, and
  \<^verbatim>\<open>parseInt\<close> when the note cannot be converted to a string.
\<close>

datatype sortkey = KStr string | KNum int

definition game_field :: "column \<Rightarrow> game \<Rightarrow> jsval" where
  "game_field c g =
     (case c of Title \<Rightarrow> g_title g | Status \<Rightarrow> g_status g
              | Note \<Rightarrow> g_note g | Difficulty \<Rightarrow> g_difficulty g)"

definition sort_value :: "column \<Rightarrow> game \<Rightarrow> error + sortkey" where
  "sort_value c g =
     (let v = game_field c g in
      case c of
        Title \<Rightarrow> (case js_or v (JStr []) of JStr s \<Rightarrow> Inr (KStr (toLowerCase s)) | _ \<Rightarrow> Inl TypeError)
      | Note \<Rightarrow> and_then (parseInt v)
                  (\<lambda>parsed. Inr (KNum (case parsed of Some n \<Rightarrow> n | None \<Rightarrow> 0)))
      | Difficulty \<Rightarrow> Inr (KNum (indexOf difficultyOrder v))
      | Status \<Rightarrow> Inr (KNum (indexOf statusOrder v)))"

text \<open>\<^verbatim>\<open><\<close> on two strings compares code units; on two numbers, the numbers.\<close>

fun str_less :: "string \<Rightarrow> string \<Rightarrow> bool" where
  "str_less [] [] = False"
| "str_less [] (y # ys) = True"
| "str_less (x # xs) [] = False"
| "str_less (x # xs) (y # ys) =
     (if x = y then str_less xs ys else (of_char x :: nat) < of_char y)"

fun key_less :: "sortkey \<Rightarrow> sortkey \<Rightarrow> bool" where
  "key_less (KStr a) (KStr b) = str_less a b"
| "key_less (KNum a) (KNum b) = (a < b)"
| "key_less _ _ = False"

text \<open>The comparator handed to \<^verbatim>\<open>sort\<close>.\<close>

definition compare_games :: "column \<Rightarrow> direction \<Rightarrow> game \<Rightarrow> game \<Rightarrow> error + int" where
  "compare_games c dir a b =
     (case sort_value c a of
        Inl e \<Rightarrow> Inl e
      | Inr aValue \<Rightarrow>
          (case sort_value c b of
             Inl e \<Rightarrow> Inl e
           | Inr bValue \<Rightarrow>
               Inr (if key_less aValue bValue then (if dir = Asc then - 1 else 1)
                    else if key_less bValue aValue then (if dir = Asc then 1 else - 1)
                    else 0)))"

text \<open>
  A game that the comparison accepts on every column: its title is a string and its note
  can be converted to a string.
\<close>

definition sortable :: "game \<Rightarrow> bool" where
  "sortable g = ((case g_title g of JStr s \<Rightarrow> True | _ \<Rightarrow> False) \<and> stringable (g_note g))"

text \<open>
  \<^verbatim>\<open>Array.prototype.sort\<close> is a stable sort that calls the comparator and stops at its
  first exception; with at least two elements every element takes part in a
  comparison. The model is the stable insertion sort.
\<close>

fun insert_by :: "('a \<Rightarrow> 'a \<Rightarrow> error + int) \<Rightarrow> 'a \<Rightarrow> 'a list \<Rightarrow> error + 'a list" where
  "insert_by cmp x [] = Inr [x]"
| "insert_by cmp x (y # ys) =
     (case cmp x y of
        Inl e \<Rightarrow> Inl e
      | Inr r \<Rightarrow>
          if r \<le> 0 then Inr (x # y # ys)
          else (case insert_by cmp x ys of Inl e \<Rightarrow> Inl e | Inr zs \<Rightarrow> Inr (y # zs)))"

fun array_sort :: "('a \<Rightarrow> 'a \<Rightarrow> error + int) \<Rightarrow> 'a list \<Rightarrow> error + 'a list" where
  "array_sort cmp [] = Inr []"
| "array_sort cmp (x # xs) =
     (case array_sort cmp xs of Inl e \<Rightarrow> Inl e | Inr ys \<Rightarrow> insert_by cmp x ys)"

definition sortGames :: "state \<Rightarrow> game list \<Rightarrow> error + game list" where
  "sortGames st games =
     (case sortColumn st of
        None \<Rightarrow> Inr games
      | Some c \<Rightarrow> array_sort (compare_games c (sortDirection st)) games)"

subsection \<open>Pagination and rendering\<close>

text \<open>\<^verbatim>\<open>Array.prototype.slice(start, end)\<close>: a negative index counts from the end.\<close>

definition clamp_index :: "int \<Rightarrow> nat \<Rightarrow> nat" where
  "clamp_index i len = (if i < 0 then nat (max (int len + i) 0) else min (nat i) len)"

definition js_slice :: "'a list \<Rightarrow> int \<Rightarrow> int \<Rightarrow> 'a list" where
  "js_slice xs start stop =
     (let k = clamp_index start (length xs); f = clamp_index stop (length xs)
      in take (f - k) (drop k xs))"

text \<open>
  \<^verbatim>\<open>render()\<close>: the rows it puts in the table are \<^verbatim>\<open>gamesToDisplay\<close>; with no active tab
  it only clears the container. The model has the rows that \<^verbatim>\<open>render\<close> puts in the
  table, not the elements it builds for them.
\<close>

definition gamesToDisplay :: "state \<Rightarrow> error + game list option" where
  "gamesToDisplay st =
     (case activeTabObj st of
        None \<Rightarrow> Inr None
      | Some t \<Rightarrow>
          (case sortGames st (t_games t) of
             Inl e \<Rightarrow> Inl e
           | Inr sortedGames \<Rightarrow>
               (let startIndex = (currentPage st - 1) * int ROWS_PER_PAGE;
                    endIndex = startIndex + int ROWS_PER_PAGE
                in Inr (Some (js_slice sortedGames startIndex endIndex)))))"

definition render :: "state \<Rightarrow> outcome" where
  "render st =
     (case gamesToDisplay st of
        Inl e \<Rightarrow> Threw e st
      | Inr rows \<Rightarrow> Returned (emit [RenderTable rows] st))"

definition setPage :: "int \<Rightarrow> state \<Rightarrow> outcome" where
  "setPage page st =
     (if page \<ge> 1 \<and> page \<le> getTotalPages st then render (st\<lparr>currentPage := page\<rparr>)
      else Returned st)"

definition handleSort :: "column \<Rightarrow> state \<Rightarrow> outcome" where
  "handleSort c st =
     (let st1 = (if sortColumn st = Some c
                 then st\<lparr>sortDirection := (if sortDirection st = Asc then Desc else Asc)\<rparr>
                 else st\<lparr>sortColumn := Some c, sortDirection := Asc\<rparr>)
      in render (st1\<lparr>currentPage := 1\<rparr>))"

text \<open>\<^verbatim>\<open>TableManager.setState(activeTab)\<close>; \<open>ref\<close> is the tab found by the controller.\<close>

definition table_setState :: "nat option \<Rightarrow> state \<Rightarrow> outcome" where
  "table_setState ref st =
     (let st1 = st\<lparr>activeTab := ref\<rparr>;
          st2 = (if ref \<noteq> None \<and> currentPage st1 > getTotalPages st1
                 then st1\<lparr>currentPage := 1\<rparr> else st1)
      in render st2)"

section \<open>game\_tracker.js\<close>

text \<open>\<^verbatim>\<open>Array.prototype.findIndex\<close>; \<open>None\<close> is -1. \<^verbatim>\<open>find\<close> is the element at that index.\<close>

fun findIndex :: "('a \<Rightarrow> bool) \<Rightarrow> 'a list \<Rightarrow> nat option" where
  "findIndex P [] = None"
| "findIndex P (x # xs) = (if P x then Some 0 else map_option Suc (findIndex P xs))"

definition findTab :: "jsval \<Rightarrow> tab list \<Rightarrow> nat option" where
  "findTab ident tabs = findIndex (\<lambda>t. strict_eq (t_id t) ident) tabs"

definition findGame :: "jsval \<Rightarrow> game list \<Rightarrow> nat option" where
  "findGame gameId games = findIndex (\<lambda>g. strict_eq (g_id g) gameId) games"

text \<open>
  \<^verbatim>\<open>updateUI()\<close>: save, then hand the state to the two components. The table manager
  renders last, so an exception of \<^verbatim>\<open>render\<close> leaves everything else done. \<open>Saved\<close>
  records the call of \<^verbatim>\<open>LocalStorageService.save\<close> and \<open>RenderTabs\<close> the tabs handed to
  the tab bar; whether the browser's store accepts the write, and how the tab bar shows
  a name, is not part of the state.
\<close>

definition updateUI :: "state \<Rightarrow> outcome" where
  "updateUI st =
     (let st1 = emit [Saved (tabsData st), RenderTabs (tabsData st) (activeTabId st)] st
      in table_setState (findTab (activeTabId st) (tabsData st)) st1)"

text \<open>An event handler that throws is abandoned where it stands.\<close>

definition handler :: "outcome \<Rightarrow> state" where
  "handler out = (case out of Returned st \<Rightarrow> st | Threw e st \<Rightarrow> emit [Uncaught e] st)"

definition activateTab :: "jsval \<Rightarrow> state \<Rightarrow> state" where
  "activateTab ident st = handler (updateUI (st\<lparr>activeTabId := ident\<rparr>))"

definition addTab :: "nat \<Rightarrow> state \<Rightarrow> state" where
  "addTab now st =
     (let newTab = \<lparr> t_id = JStr (nat_toString now),
                      t_name = JStr (''Nova Lista '' @ nat_toString (length (tabsData st) + 1)),
                      t_games = [], t_rest = [] \<rparr>
      in handler (updateUI (st\<lparr>tabsData := tabsData st @ [newTab], activeTabId := t_id newTab\<rparr>)))"

definition openRenameModal :: "jsval \<Rightarrow> jsval \<Rightarrow> state \<Rightarrow> state" where
  "openRenameModal ident name st = emit [OpenModal ''rename'' name] (st\<lparr>tabToRenameId := ident\<rparr>)"

definition openDeleteModal :: "jsval \<Rightarrow> jsval \<Rightarrow> state \<Rightarrow> state" where
  "openDeleteModal ident name st = emit [OpenModal ''delete'' name] (st\<lparr>tabToDeleteId := ident\<rparr>)"

text \<open>
  The delete button of a tab (TabManager.render): the modal is opened only while more
  than one tab exists.
\<close>

definition clickDeleteTab :: "jsval \<Rightarrow> jsval \<Rightarrow> state \<Rightarrow> state" where
  "clickDeleteTab ident name st =
     (if length (tabsData st) > 1 then openDeleteModal ident name st
      else emit [Alert (''Pelo menos uma aba deve permanecer!'')] st)"

text \<open>
  \<^verbatim>\<open>updateGame(gameId, property, value)\<close>. With no active tab \<^verbatim>\<open>tab.games\<close> throws; with no
  matching game nothing is done. A setter that throws while printing its warning leaves
  the state as it was.
\<close>

definition updateGame :: "nat \<Rightarrow> jsval \<Rightarrow> string \<Rightarrow> jsval \<Rightarrow> state \<Rightarrow> state" where
  "updateGame now gameId property v st =
     (case findTab (activeTabId st) (tabsData st) of
        None \<Rightarrow> handler (Threw TypeError st)
      | Some i \<Rightarrow>
          (let tab = tabsData st ! i in
           case findGame gameId (t_games tab) of
             None \<Rightarrow> st
           | Some j \<Rightarrow>
               (case fromJSON now (game_val (t_games tab ! j)) of
                  Inl e \<Rightarrow> handler (Threw e st)
                | Inr gameRow \<Rightarrow>
                    (case updateProperty property v gameRow of
                       Inl e \<Rightarrow> handler (Threw e st)
                     | Inr (updated, gameRow', warns) \<Rightarrow>
                         if updated
                         then handler (updateUI (emit warns
                                (st\<lparr>tabsData := (tabsData st)
                                        [i := tab\<lparr>t_games := (t_games tab)[j := toJSON gameRow']\<rparr>]\<rparr>)))
                         else (case interpolate (''Falha ao atualizar propriedade '' @ [dq]
                                       @ property @ [dq] @ '' do jogo '') gameId [] of
                                 Inl e \<Rightarrow> handler (Threw e (emit warns st))
                               | Inr message \<Rightarrow> emit (warns @ [ConsoleError message]) st)))))"

definition deleteGame :: "jsval \<Rightarrow> state \<Rightarrow> state" where
  "deleteGame gameId st =
     (case findTab (activeTabId st) (tabsData st) of
        None \<Rightarrow> handler (Threw TypeError st)
      | Some i \<Rightarrow>
          (let tab = tabsData st ! i
           in handler (updateUI
                (st\<lparr>tabsData := (tabsData st)
                       [i := tab\<lparr>t_games := filter (\<lambda>g. \<not> strict_eq (g_id g) gameId) (t_games tab)\<rparr>]\<rparr>))))"

text \<open>
  \<^verbatim>\<open>addRow()\<close>: the new game is pushed, the table is sent to the last page (which renders),
  and only then \<^verbatim>\<open>updateUI\<close> saves.
\<close>

definition addRow :: "nat \<Rightarrow> state \<Rightarrow> state" where
  "addRow now st =
     (case findTab (activeTabId st) (tabsData st) of
        None \<Rightarrow> st
      | Some i \<Rightarrow>
          (let tab = tabsData st ! i in
           case createDefault now (length (t_games tab) + 1) of
             Inl e \<Rightarrow> handler (Threw e st)
           | Inr newGame \<Rightarrow>
               (let games' = t_games tab @ [toJSON newGame];
                    st1 = st\<lparr>tabsData := (tabsData st)[i := tab\<lparr>t_games := games'\<rparr>]\<rparr>
                in case setPage (Math_ceil_div (length games') 10) st1 of
                     Threw e st2 \<Rightarrow> handler (Threw e st2)
                   | Returned st2 \<Rightarrow> handler (updateUI st2))))"

text \<open>\<^verbatim>\<open>handleRename\<close>; \<open>input\<close> is the text of the rename field.\<close>

definition handleRename :: "string \<Rightarrow> state \<Rightarrow> state" where
  "handleRename input st =
     (let newName = trim input in
      if newName = [] then emit [Alert (''O nome da aba n'' @ [a_tilde] @ ''o pode estar vazio!'')] st
      else case findTab (tabToRenameId st) (tabsData st) of
             None \<Rightarrow> st
           | Some i \<Rightarrow>
               handler (updateUI (emit [CloseAllModals]
                 (st\<lparr>tabsData := (tabsData st)[i := (tabsData st ! i)\<lparr>t_name := JStr newName\<rparr>]\<rparr>))))"

text \<open>\<^verbatim>\<open>handleDelete\<close>; \<^verbatim>\<open>splice(tabIndex, 1)\<close> removes the tab at that position.\<close>

definition handleDelete :: "state \<Rightarrow> state" where
  "handleDelete st =
     (if length (tabsData st) \<le> 1
      then emit [Alert (''Pelo menos uma aba deve permanecer!''), CloseAllModals] st
      else case findTab (tabToDeleteId st) (tabsData st) of
             None \<Rightarrow> st
           | Some tabIndex \<Rightarrow>
               (let tabs' = take tabIndex (tabsData st) @ drop (Suc tabIndex) (tabsData st);
                    active' = (if strict_eq (activeTabId st) (tabToDeleteId st)
                               then (if length tabs' > 0 then t_id (tabs' ! 0) else JNull)
                               else activeTabId st)
                in handler (updateUI (emit [CloseAllModals]
                     (st\<lparr>tabsData := tabs', activeTabId := active'\<rparr>)))))"

definition exportToJson :: "state \<Rightarrow> state" where
  "exportToJson st =
     (if length (tabsData st) = 0 then emit [Alert (''N'' @ [a_tilde] @ ''o h'' @ [a_acute] @ '' dados para exportar.'')] st
      else emit [Download (tabsData st)] st)"

subsection \<open>Import\<close>

text \<open>
  The test of one element in \<^verbatim>\<open>importedData.every(...)\<close>:
  \<^verbatim>\<open>t.id && t.name && Array.isArray(t.games)\<close>, which throws on \<^verbatim>\<open>null\<close>.
  \<^verbatim>\<open>every\<close> stops at the first element that fails.
\<close>

definition tab_shape :: "jsval \<Rightarrow> error + bool" where
  "tab_shape t =
     (if nullish t then Inl TypeError
      else Inr (truthy (get_prop t ''id'') \<and> truthy (get_prop t ''name'')
                \<and> isArray (get_prop t ''games'')))"

fun every_tab_shape :: "jsval list \<Rightarrow> error + bool" where
  "every_tab_shape [] = Inr True"
| "every_tab_shape (t # ts) =
     (case tab_shape t of
        Inl e \<Rightarrow> Inl e
      | Inr ok \<Rightarrow> if ok then every_tab_shape ts else Inr False)"

text \<open>
  The body of the inner \<^verbatim>\<open>map\<close>: build the GameRow, validate it, warn when it is not
  valid, and keep \<^verbatim>\<open>toJSON()\<close>. The result carries the warnings written before the
  return or the exception. All the \<^verbatim>\<open>Date.now()\<close> readings of one import are taken to
  be the same millisecond \<open>now\<close>.
\<close>

definition import_game :: "nat \<Rightarrow> jsval \<Rightarrow> effect list \<times> (error + game)" where
  "import_game now gameData =
     (case fromJSON now gameData of
        Inl e \<Rightarrow> ([], Inl e)
      | Inr gameRow \<Rightarrow>
          (case validate gameRow of
             Inl e \<Rightarrow> ([], Inl e)
           | Inr (isValid, errors) \<Rightarrow>
               if isValid then ([], Inr (toJSON gameRow))
               else (case interpolate (''Jogo '' @ [dq]) (get_prop gameData ''title'')
                            ([dq] @ '' cont'' @ [e_acute] @ ''m dados inv'' @ [a_acute] @ ''lidos:'') of
                       Inl e \<Rightarrow> ([], Inl e)
                     | Inr message \<Rightarrow> ([ConsoleWarn message errors], Inr (toJSON gameRow)))))"

fun import_games :: "nat \<Rightarrow> jsval list \<Rightarrow> effect list \<times> (error + game list)" where
  "import_games now [] = ([], Inr [])"
| "import_games now (g # gs) =
     (case import_game now g of
        (w, Inl e) \<Rightarrow> (w, Inl e)
      | (w, Inr j) \<Rightarrow>
          (case import_games now gs of
             (ws, Inl e) \<Rightarrow> (w @ ws, Inl e)
           | (ws, Inr js) \<Rightarrow> (w @ ws, Inr (j # js))))"

text \<open>
  \<^verbatim>\<open>{ ...tab, games: [...] }\<close>: the tab keeps its id, its name and its other properties,
  and gets the new games array.
\<close>

definition import_tab :: "nat \<Rightarrow> jsval \<Rightarrow> effect list \<times> (error + tab)" where
  "import_tab now t =
     (case get_prop t ''games'' of
        JArr gs \<Rightarrow>
          (case import_games now gs of
             (w, Inl e) \<Rightarrow> (w, Inl e)
           | (w, Inr js) \<Rightarrow>
               (w, Inr \<lparr> t_id = get_prop t ''id'', t_name = get_prop t ''name'', t_games = js,
                         t_rest = (case t of
                                     JObj kvs \<Rightarrow> filter (\<lambda>kv. fst kv \<notin> {''id'', ''name'', ''games''}) kvs
                                   | _ \<Rightarrow> []) \<rparr>))
      | _ \<Rightarrow> ([], Inl TypeError))"

fun import_tabs :: "nat \<Rightarrow> jsval list \<Rightarrow> effect list \<times> (error + tab list)" where
  "import_tabs now [] = ([], Inr [])"
| "import_tabs now (t # ts) =
     (case import_tab now t of
        (w, Inl e) \<Rightarrow> (w, Inl e)
      | (w, Inr t') \<Rightarrow>
          (case import_tabs now ts of
             (ws, Inl e) \<Rightarrow> (w @ ws, Inl e)
           | (ws, Inr ts') \<Rightarrow> (w @ ws, Inr (t' # ts'))))"

definition format_error :: string where
  "format_error = ''Erro na importa'' @ [c_cedil, a_tilde] @ ''o: O arquivo JSON n'' @ [a_tilde]
     @ ''o est'' @ [a_acute] @ '' no formato esperado (Array de Abas com ID, Nome e Array de Jogos).''"

definition import_success :: string where
  "import_success = ''Dados importados e validados com sucesso!''"

definition process_error :: string where
  "process_error = ''Erro ao processar o arquivo JSON. Verifique a formata'' @ [c_cedil, a_tilde] @ ''o.''"

text \<open>The \<^verbatim>\<open>catch\<close> block of the import.\<close>

definition import_catch :: "state \<Rightarrow> state" where
  "import_catch st = emit [Alert process_error, ConsoleError (''Erro na importa'' @ [c_cedil, a_tilde] @ ''o:'')] st"

text \<open>
  \<^verbatim>\<open>reader.onload\<close> of \<^verbatim>\<open>importJson\<close>. \<open>parsed\<close> is the result of \<^verbatim>\<open>JSON.parse\<close> on the
  file's text (a SyntaxError when it is not JSON) and \<open>confirmed\<close> the user's answer to
  the \<^verbatim>\<open>confirm\<close> dialog.
\<close>

definition importJson :: "nat \<Rightarrow> bool \<Rightarrow> error + jsval \<Rightarrow> state \<Rightarrow> state" where
  "importJson now confirmed parsed st =
     (case parsed of
        Inl e \<Rightarrow> import_catch st
      | Inr importedData \<Rightarrow>
          (case importedData of
             JArr ts \<Rightarrow>
               (case every_tab_shape ts of
                  Inl e \<Rightarrow> import_catch st
                | Inr ok \<Rightarrow>
                    if \<not> ok then emit [Alert format_error] st
                    else
                      (let st1 = emit [Confirm (length (tabsData st)) (length ts)] st in
                       if \<not> confirmed then st1
                       else
                         (case import_tabs now ts of
                            (w, Inl e) \<Rightarrow> import_catch (emit w st1)
                          | (w, Inr validatedData) \<Rightarrow>
                              (let st2 = emit (w @ [Alert import_success])
                                           (st1\<lparr>tabsData := validatedData,
                                                activeTabId := (if length validatedData > 0
                                                                then t_id (validatedData ! 0) else JNull)\<rparr>)
                               in case updateUI st2 of
                                    Returned st3 \<Rightarrow> st3
                                  | Threw e st3 \<Rightarrow> import_catch st3))))
           | _ \<Rightarrow> emit [Alert format_error] st))"

section \<open>The events of the page\<close>

text \<open>A click on a sortable column header calls \<^verbatim>\<open>handleSort\<close>; the pagination buttons
  call \<^verbatim>\<open>setPage\<close>.\<close>

definition clickHeader :: "column \<Rightarrow> state \<Rightarrow> state" where
  "clickHeader c st = handler (handleSort c st)"

definition clickPage :: "int \<Rightarrow> state \<Rightarrow> state" where
  "clickPage page st = handler (setPage page st)"

section \<open>The words of the specification\<close>

text \<open>
  An element of an imported document has the shape of a tab when it is an object with a
  truthy id, a truthy name and an array of games.
\<close>

definition group_shaped :: "jsval \<Rightarrow> bool" where
  "group_shaped t =
     (\<not> nullish t \<and> truthy (get_prop t ''id'') \<and> truthy (get_prop t ''name'')
      \<and> isArray (get_prop t ''games''))"

text \<open>
  An element of a games array that the import can process: not \<^verbatim>\<open>null\<close> (the constructor
  reads its properties), with a title that is a string or falsy (\<^verbatim>\<open>validate\<close> calls
  \<^verbatim>\<open>trim\<close> on a truthy title), and with a status, a note and a difficulty that can be
  converted to strings (\<^verbatim>\<open>validate\<close> converts the note and prints the values it finds
  invalid, and the table prints all three).
\<close>

definition record_shaped :: "jsval \<Rightarrow> bool" where
  "record_shaped g =
     (g \<noteq> JNull
      \<and> (case get_prop g ''title'' of JStr s \<Rightarrow> True | v \<Rightarrow> \<not> truthy v)
      \<and> stringable (get_prop g ''status'')
      \<and> stringable (get_prop g ''note'')
      \<and> stringable (get_prop g ''difficulty''))"

text \<open>
  The message \<^verbatim>\<open>validate\<close> gives for a status outside the enumeration that prints as
  \<open>s\<close>, and the messages listed by the console warnings of a trace.
\<close>

definition status_error :: "string \<Rightarrow> string" where
  "status_error s =
     ''Status '' @ [dq] @ s @ [dq] @ '' '' @ [e_acute] @ '' inv'' @ [a_acute] @ ''lido''"

definition warns_of :: "effect list \<Rightarrow> string list" where
  "warns_of es = concat (map (\<lambda>e. case e of ConsoleWarn msg errs \<Rightarrow> errs | _ \<Rightarrow> []) es)"

text \<open>The position of a value in one of the two order lists of \<^verbatim>\<open>sortGames\<close>.\<close>

definition order_of :: "column \<Rightarrow> string list" where
  "order_of c = (if c = Status then statusOrder else difficultyOrder)"

definition enum_rank :: "column \<Rightarrow> game \<Rightarrow> int" where
  "enum_rank c g = indexOf (order_of c) (game_field c g)"

text \<open>A comparator that orders by an integer key, ascending.\<close>

definition by_key :: "('a \<Rightarrow> int) \<Rightarrow> 'a \<Rightarrow> 'a \<Rightarrow> error + int" where
  "by_key k a b = Inr (if k a < k b then - 1 else if k b < k a then 1 else 0)"

section \<open>Example data\<close>

text \<open>A list with two games as the program stores it, and the state after start-up.\<close>

definition game1 :: game where
  "game1 = \<lparr> g_id = JStr ''g1'', g_title = JStr ''Doom'', g_status = JStr ''Jogando'',
             g_note = JStr ''7'', g_difficulty = JStr ''B'' \<rparr>"

definition game2 :: game where
  "game2 = \<lparr> g_id = JStr ''g2'', g_title = JStr ''Another World'', g_status = JStr ''Zerado'',
             g_note = JStr ''10'', g_difficulty = JStr ''A+'' \<rparr>"

definition game3 :: game where
  "game3 = \<lparr> g_id = JStr ''g3'', g_title = JStr ''Quake'', g_status = JStr ''Abandonado'',
             g_note = JStr ''3'', g_difficulty = JStr ''S'' \<rparr>"

definition tab1 :: tab where
  "tab1 = \<lparr> t_id = JStr ''default_1'', t_name = JStr ''Minha Lista'',
            t_games = [game1, game2], t_rest = [] \<rparr>"

definition state1 :: state where
  "state1 = \<lparr> tabsData = [tab1], activeTabId = JStr ''default_1'',
              tabToRenameId = JNull, tabToDeleteId = JNull,
              currentPage = 1, activeTab = Some 0,
              sortColumn = None, sortDirection = Asc, effects = [] \<rparr>"

text \<open>A second, empty list, and a state with both lists in which the first is active and
  the delete modal is open on it.\<close>

definition tab2 :: tab where
  "tab2 = \<lparr> t_id = JStr ''1700000000000'', t_name = JStr ''Nova Lista 2'',
            t_games = [], t_rest = [] \<rparr>"

definition state2 :: state where
  "state2 = state1\<lparr> tabsData := [tab1, tab2], tabToDeleteId := JStr ''default_1'' \<rparr>"

section \<open>Properties of GameRow\<close>

lemma GameNote_eq:
  "GameNote = map (\<lambda>c. [c]) ''0123456789'' @ [''10'']"
  by (simp add: GameNote_def upt_rec nat_toString_def digits_acc.simps digit_char_def)

lemma digits_acc_nonempty: "digits_acc n acc \<noteq> []"
  by (induction n acc rule: digits_acc.induct) (subst digits_acc.simps, simp)

lemma nat_toString_nonempty: "nat_toString n \<noteq> []"
  by (simp add: nat_toString_def digits_acc_nonempty)

lemma and_then_simps [simp]:
  "and_then (Inr a) f = f a"
  "and_then (Inl e) f = Inl e"
  by (simp_all add: and_then_def)

lemma js_or_truthy: "truthy d \<Longrightarrow> truthy (js_or a d)"
  by (simp add: js_or_def)

lemma js_or_absorb: "truthy d \<Longrightarrow> js_or (js_or a d) d' = js_or a d"
  by (simp add: js_or_def)

lemma js_or_empty_twice: "js_or (js_or a (JStr [])) (JStr []) = js_or a (JStr [])"
  by (simp add: js_or_def)


subsection \<open>updateProperty\<close>

lemma updateProperty_enum_valid:
  "isValidStatus v \<Longrightarrow> updateProperty ''status'' v r = Inr (True, r\<lparr>row_status := v\<rparr>, [])"
  "isValidNote v = Inr True \<Longrightarrow> updateProperty ''note'' v r = Inr (True, r\<lparr>row_note := v\<rparr>, [])"
  "isValidDifficulty v \<Longrightarrow>
     updateProperty ''difficulty'' v r = Inr (True, r\<lparr>row_difficulty := v\<rparr>, [])"
  by (simp_all add: updateProperty_def validProperties_def assign_def set_status_def
      set_note_def set_difficulty_def)

lemma kept_warning_stringable:
  "stringable v \<Longrightarrow> stringable old \<Longrightarrow> \<exists>w. kept_warning label v old = Inr w"
  by (auto simp: kept_warning_def stringable_def split: sum.splits)

lemma updateProperty_enum_invalid:
  "\<not> isValidStatus v \<Longrightarrow> kept_warning (''Status inv'' @ [a_acute] @ ''lido: '') v (row_status r) = Inr w
     \<Longrightarrow> updateProperty ''status'' v r = Inr (True, r, w)"
  "isValidNote v = Inr False \<Longrightarrow> kept_warning (''Nota inv'' @ [a_acute] @ ''lida: '') v (row_note r) = Inr w
     \<Longrightarrow> updateProperty ''note'' v r = Inr (True, r, w)"
  "\<not> isValidDifficulty v \<Longrightarrow>
     kept_warning (''Dificuldade inv'' @ [a_acute] @ ''lida: '') v (row_difficulty r) = Inr w
     \<Longrightarrow> updateProperty ''difficulty'' v r = Inr (True, r, w)"
  by (simp_all add: updateProperty_def validProperties_def assign_def set_status_def
      set_note_def set_difficulty_def)

lemma updateProperty_title:
  "updateProperty ''title'' v r = Inr (True, r\<lparr>row_title := v\<rparr>, [])"
  by (simp add: updateProperty_def validProperties_def assign_def)

lemma updateProperty_unknown:
  "property \<notin> set validProperties \<Longrightarrow>
   \<exists>w. updateProperty property v r = Inr (False, r, w)"
  by (simp add: updateProperty_def)

text \<open>
  C1. A write of a value outside the enumeration is expected to return false and keep the
  field. The field is kept, but \<^verbatim>\<open>updateProperty\<close> returns true: on a record whose status
  is "Jogando", writing the status "Unknown" (not a member of \<open>GameStatus\<close>) leaves the
  record as it was, logs the setter's warning, and reports success.
\<close>

theorem updateProperty_invalid_status_returns_true:
  "\<not> isValidStatus (JStr ''Unknown'') \<and>
   updateProperty ''status'' (JStr ''Unknown'')
     \<lparr> row_id = JStr ''1'', row_title = JStr ''Doom'', row_status = JStr ''Jogando'',
       row_note = JStr ''7'', row_difficulty = JStr ''B'' \<rparr>
   = Inr (True,
      \<lparr> row_id = JStr ''1'', row_title = JStr ''Doom'', row_status = JStr ''Jogando'',
        row_note = JStr ''7'', row_difficulty = JStr ''B'' \<rparr>,
      [ConsoleWarn (''Status inv'' @ [a_acute] @ ''lido: '' @ [dq] @ ''Unknown'' @ [dq]
                    @ ''. Mantendo valor anterior: '' @ [dq] @ ''Jogando'' @ [dq]) []])"
  by (simp add: updateProperty_def validProperties_def assign_def set_status_def kept_warning_def
      isValidStatus_def js_includes_def GameStatus_def)

subsection \<open>The constructor after toJSON\<close>

lemma GameRow_new_again:
  assumes "GameRow_new now x = Inr r"
  shows "GameRow_new now' (game_val (toJSON r)) = Inr r"
proof -
  have ts: "truthy (JStr (nat_toString now))" "truthy (JStr (GameStatus ! 0))"
     "truthy (JStr (GameNote ! 0))" "truthy (JStr (GameDifficulty ! 0))"
    by (simp_all add: nat_toString_nonempty GameStatus_def GameNote_eq GameDifficulty_def)
  from assms show ?thesis
    by (auto simp: GameRow_new_def Let_def game_val_def toJSON_def js_or_absorb[OF ts(1)]
        js_or_absorb[OF ts(2)] js_or_absorb[OF ts(3)] js_or_absorb[OF ts(4)] js_or_empty_twice
        split: if_splits)
qed

text \<open>
  C8. Serialising a record built from raw data, building a record from that document and
  serialising again gives the same document: for every raw value \<open>x\<close> the constructor
  accepts, \<open>toJSON (fromJSON (toJSON (fromJSON x))) = toJSON (fromJSON x)\<close>, whatever the
  clock reads at either construction.
\<close>

theorem toJSON_fromJSON_idempotent:
  "fromJSON now x = Inr r \<Longrightarrow>
   \<exists>r'. fromJSON now' (game_val (toJSON r)) = Inr r' \<and> toJSON r' = toJSON r"
  by (simp add: fromJSON_def GameRow_new_again)

theorem toJSON_fromJSON_idempotent_witness:
  "fromJSON 1700000000000 (JObj [(''title'', JStr ''Doom''), (''status'', JStr ''Unknown'')])
     = Inr \<lparr> row_id = JStr ''1700000000000'', row_title = JStr ''Doom'',
             row_status = JStr ''Unknown'', row_note = JStr ''0'', row_difficulty = JStr ''F'' \<rparr>
   \<and> (\<exists>r'. fromJSON 5 (game_val (toJSON
               \<lparr> row_id = JStr ''1700000000000'', row_title = JStr ''Doom'',
                 row_status = JStr ''Unknown'', row_note = JStr ''0'', row_difficulty = JStr ''F'' \<rparr>))
             = Inr r'
           \<and> toJSON r' = toJSON
               \<lparr> row_id = JStr ''1700000000000'', row_title = JStr ''Doom'',
                 row_status = JStr ''Unknown'', row_note = JStr ''0'', row_difficulty = JStr ''F'' \<rparr>)"
proof -
  have s: "nat_toString 1700000000000 = ''1700000000000''"
    by (simp add: nat_toString_def digits_acc.simps digit_char_def)
  have h: "fromJSON 1700000000000 (JObj [(''title'', JStr ''Doom''), (''status'', JStr ''Unknown'')])
     = Inr \<lparr> row_id = JStr ''1700000000000'', row_title = JStr ''Doom'',
             row_status = JStr ''Unknown'', row_note = JStr ''0'', row_difficulty = JStr ''F'' \<rparr>"
    by (simp add: fromJSON_def GameRow_new_def js_or_def s GameNote_eq GameDifficulty_def)
  show ?thesis using h toJSON_fromJSON_idempotent [OF h, of 5] by simp
qed

section \<open>Properties of the table and the controller\<close>

lemma emit_simps [simp]:
  "tabsData (emit es st) = tabsData st"
  "activeTabId (emit es st) = activeTabId st"
  "tabToRenameId (emit es st) = tabToRenameId st"
  "tabToDeleteId (emit es st) = tabToDeleteId st"
  "currentPage (emit es st) = currentPage st"
  "activeTab (emit es st) = activeTab st"
  "sortColumn (emit es st) = sortColumn st"
  "sortDirection (emit es st) = sortDirection st"
  "effects (emit es st) = effects st @ es"
  by (simp_all add: emit_def)

text \<open>
  C10. When \<^verbatim>\<open>updateGame\<close> is called with an id that no game of the active tab has, the
  call changes nothing: the whole state, trace of effects included, is the one before the
  call, so no game of any tab is modified, nothing is saved and nothing is rendered.
\<close>

theorem updateGame_unknown_id_noop:
  "findTab (activeTabId st) (tabsData st) = Some i \<Longrightarrow>
   findGame gameId (t_games (tabsData st ! i)) = None \<Longrightarrow>
   updateGame now gameId property v st = st"
  by (simp add: updateGame_def)

lemma sortGames_cong:
  "sortColumn a = sortColumn b \<Longrightarrow> sortDirection a = sortDirection b \<Longrightarrow> sortGames a gs = sortGames b gs"
  by (simp add: sortGames_def cong: option.case_cong)

lemma gamesToDisplay_cong:
  "sortColumn a = sortColumn b \<Longrightarrow> sortDirection a = sortDirection b \<Longrightarrow>
   tabsData a = tabsData b \<Longrightarrow> activeTab a = activeTab b \<Longrightarrow> currentPage a = currentPage b \<Longrightarrow>
   gamesToDisplay a = gamesToDisplay b"
  by (simp add: gamesToDisplay_def activeTabObj_def sortGames_def
      cong: option.case_cong sum.case_cong if_cong)

lemma handler_render_fields:
  "tabsData (handler (render st)) = tabsData st"
  "activeTabId (handler (render st)) = activeTabId st"
  "tabToRenameId (handler (render st)) = tabToRenameId st"
  "tabToDeleteId (handler (render st)) = tabToDeleteId st"
  "currentPage (handler (render st)) = currentPage st"
  "activeTab (handler (render st)) = activeTab st"
  "sortColumn (handler (render st)) = sortColumn st"
  "sortDirection (handler (render st)) = sortDirection st"
  by (simp_all add: handler_def render_def split: sum.splits)

lemma clickHeader_same_column:
  assumes "sortColumn st = Some c"
  shows "sortColumn (clickHeader c st) = Some c"
    and "sortDirection (clickHeader c st) = (if sortDirection st = Asc then Desc else Asc)"
    and "currentPage (clickHeader c st) = 1"
    and "tabsData (clickHeader c st) = tabsData st"
    and "activeTab (clickHeader c st) = activeTab st"
  using assms by (simp_all add: clickHeader_def handleSort_def handler_render_fields)

text \<open>
  C9. With the table sorted ascending on a column, a click on that column's header sorts
  descending, and a second click restores the ascending direction: the sort configuration
  is the one before the two clicks, \<^verbatim>\<open>sortGames\<close> orders every list as it did before, and
  the rows displayed are those of the first page of that order (a click goes to page 1).
\<close>

theorem sort_toggle_twice:
  assumes "sortColumn st = Some c" and "sortDirection st = Asc"
  shows "sortDirection (clickHeader c st) = Desc
       \<and> sortColumn (clickHeader c (clickHeader c st)) = Some c
       \<and> sortDirection (clickHeader c (clickHeader c st)) = Asc
       \<and> sortGames (clickHeader c (clickHeader c st)) gs = sortGames st gs
       \<and> gamesToDisplay (clickHeader c (clickHeader c st)) = gamesToDisplay (st\<lparr>currentPage := 1\<rparr>)"
proof -
  let ?s1 = "clickHeader c st"
  let ?s2 = "clickHeader c ?s1"
  have 1: "sortColumn ?s1 = Some c" "sortDirection ?s1 = Desc" "tabsData ?s1 = tabsData st"
     "activeTab ?s1 = activeTab st"
    using clickHeader_same_column[OF assms(1)] assms(2) by simp_all
  have 2: "sortColumn ?s2 = Some c" "sortDirection ?s2 = Asc" "tabsData ?s2 = tabsData st"
     "activeTab ?s2 = activeTab st" "currentPage ?s2 = 1"
    using clickHeader_same_column[OF 1(1)] 1 by simp_all
  have 3: "sortGames ?s2 gs = sortGames st gs"
    by (rule sortGames_cong) (simp_all add: 2 assms)
  have 4: "gamesToDisplay ?s2 = gamesToDisplay (st\<lparr>currentPage := 1\<rparr>)"
    by (rule gamesToDisplay_cong) (simp_all add: 2 assms)
  show ?thesis using 1 2 3 4 by simp
qed

theorem updateGame_unknown_id_noop_witness:
  "findTab (activeTabId state1) (tabsData state1) = Some 0
   \<and> findGame (JStr ''g9'') (t_games (tabsData state1 ! 0)) = None
   \<and> updateGame 1700000000000 (JStr ''g9'') ''status'' (JStr ''Zerado'') state1 = state1"
proof -
  have h1: "findTab (activeTabId state1) (tabsData state1) = Some 0"
    by (simp add: state1_def tab1_def findTab_def strict_eq_def)
  have h2: "findGame (JStr ''g9'') (t_games (tabsData state1 ! 0)) = None"
    by (simp add: state1_def tab1_def game1_def game2_def findGame_def strict_eq_def)
  show ?thesis
    using h1 h2 updateGame_unknown_id_noop [OF h1 h2, of 1700000000000 "''status''" "JStr ''Zerado''"]
    by simp
qed

theorem sort_toggle_twice_witness:
  "sortColumn (state1\<lparr>sortColumn := Some Status\<rparr>) = Some Status
   \<and> sortDirection (state1\<lparr>sortColumn := Some Status\<rparr>) = Asc
   \<and> sortDirection (clickHeader Status (state1\<lparr>sortColumn := Some Status\<rparr>)) = Desc
   \<and> sortColumn (clickHeader Status (clickHeader Status (state1\<lparr>sortColumn := Some Status\<rparr>))) = Some Status
   \<and> sortDirection (clickHeader Status (clickHeader Status (state1\<lparr>sortColumn := Some Status\<rparr>))) = Asc
   \<and> sortGames (clickHeader Status (clickHeader Status (state1\<lparr>sortColumn := Some Status\<rparr>))) [game2, game1]
       = Inr [game1, game2]
   \<and> gamesToDisplay (clickHeader Status (clickHeader Status (state1\<lparr>sortColumn := Some Status\<rparr>)))
       = Inr (Some [game1, game2])"
proof -
  let ?st = "state1\<lparr>sortColumn := Some Status\<rparr>"
  have h1: "sortColumn ?st = Some Status" by simp
  have h2: "sortDirection ?st = Asc" by (simp add: state1_def)
  have cmp: "compare_games Status Asc game2 game1 = Inr 1" "compare_games Status Asc game1 game2 = Inr (- 1)"
    by (simp_all add: compare_games_def sort_value_def game_field_def game1_def game2_def
        indexOf_def statusOrder_def)
  have s1: "sortGames ?st [game2, game1] = Inr [game1, game2]"
    by (simp add: sortGames_def state1_def cmp)
  have s2: "sortGames ?st [game1, game2] = Inr [game1, game2]"
    by (simp add: sortGames_def state1_def cmp)
  have d: "gamesToDisplay (?st\<lparr>currentPage := 1\<rparr>) = Inr (Some [game1, game2])"
    using s2 by (simp add: gamesToDisplay_def activeTabObj_def state1_def tab1_def sortGames_def
        js_slice_def clamp_index_def ROWS_PER_PAGE_def)
  show ?thesis
    using h1 h2 s1 d sort_toggle_twice [OF h1 h2, of "[game2, game1]"] by simp
qed

subsection \<open>The sort\<close>

lemma insert_by_mset:
  "insert_by cmp x ys = Inr zs \<Longrightarrow> mset zs = add_mset x (mset ys)"
  by (induction ys arbitrary: zs) (auto split: sum.splits if_splits)

lemma array_sort_mset:
  "array_sort cmp xs = Inr ys \<Longrightarrow> mset ys = mset xs"
  by (induction xs arbitrary: ys) (auto split: sum.splits dest: insert_by_mset)

lemma array_sort_length:
  "array_sort cmp xs = Inr ys \<Longrightarrow> length ys = length xs"
  by (metis array_sort_mset size_mset)

lemma array_sort_set:
  "array_sort cmp xs = Inr ys \<Longrightarrow> set ys = set xs"
  by (metis array_sort_mset set_mset_mset)

lemma insert_by_total:
  "\<forall>b \<in> set ys. \<exists>r. cmp x b = Inr r \<Longrightarrow> \<exists>zs. insert_by cmp x ys = Inr zs"
  by (induction ys) (auto split: sum.splits)

lemma array_sort_total:
  "(\<And>a b. a \<in> set xs \<Longrightarrow> b \<in> set xs \<Longrightarrow> \<exists>r. cmp a b = Inr r) \<Longrightarrow>
   \<exists>ys. array_sort cmp xs = Inr ys"
proof (induction xs)
  case Nil
  then show ?case by simp
next
  case (Cons x xs)
  then obtain ys where ys: "array_sort cmp xs = Inr ys" by auto
  have "set ys = set xs" using ys by (rule array_sort_set)
  then have "\<exists>zs. insert_by cmp x ys = Inr zs"
    using Cons.prems by (intro insert_by_total) auto
  with ys show ?case by auto
qed

lemma by_key_le: "by_key k a b = Inr r \<Longrightarrow> (r \<le> 0) = (k a \<le> k b)"
  by (auto simp: by_key_def split: if_splits)

lemma insert_by_key_sorted:
  "sorted (map k ys) \<Longrightarrow> insert_by (by_key k) x ys = Inr zs \<Longrightarrow> sorted (map k zs)"
proof (induction ys arbitrary: zs)
  case Nil
  then show ?case by auto
next
  case (Cons y ys)
  show ?case
  proof (cases "k x \<le> k y")
    case True
    obtain r where r: "by_key k x y = Inr r" by (simp add: by_key_def)
    with True have "r \<le> 0" by (simp add: by_key_le)
    with r Cons.prems True show ?thesis by fastforce
  next
    case False
    obtain r where r: "by_key k x y = Inr r" by (simp add: by_key_def)
    with False have "\<not> r \<le> 0" by (simp add: by_key_le)
    with r obtain zs' where zs': "insert_by (by_key k) x ys = Inr zs'" "zs = y # zs'"
      using Cons.prems by (auto split: sum.splits)
    have "sorted (map k zs')" using Cons.IH zs'(1) Cons.prems(1) by simp
    moreover have "set zs' = insert x (set ys)"
      using insert_by_mset[OF zs'(1)] by (metis set_mset_add_mset_insert set_mset_mset)
    ultimately show ?thesis using zs'(2) Cons.prems(1) False by auto
  qed
qed

lemma array_sort_key_sorted:
  "array_sort (by_key k) xs = Inr ys \<Longrightarrow> sorted (map k ys)"
  by (induction xs arbitrary: ys) (auto split: sum.splits dest: insert_by_key_sorted[rotated])

lemma compare_games_enum:
  "c = Status \<or> c = Difficulty \<Longrightarrow> compare_games c Asc = by_key (enum_rank c)"
  by (auto simp: compare_games_def by_key_def enum_rank_def order_of_def sort_value_def fun_eq_iff)

lemma index_from_absent: "0 \<le> i \<Longrightarrow> (index_from xs s i = - 1) = (s \<notin> set xs)"
proof (induction xs s i rule: index_from.induct)
  case (1 s i)
  then show ?case by simp
next
  case (2 x xs s i)
  then show ?case by auto
qed

lemma index_from_present:
  "s \<in> set xs \<Longrightarrow> i \<le> index_from xs s i \<and> index_from xs s i < i + int (length xs)
     \<and> xs ! nat (index_from xs s i - i) = s"
proof (induction xs s i rule: index_from.induct)
  case (1 s i)
  then show ?case by simp
next
  case (2 x xs s i)
  show ?case
  proof (cases "x = s")
    case True
    then show ?thesis by simp
  next
    case False
    with 2 have ih: "i + 1 \<le> index_from xs s (i + 1)" "index_from xs s (i + 1) < i + 1 + int (length xs)"
       "xs ! nat (index_from xs s (i + 1) - (i + 1)) = s" by auto
    have "nat (index_from xs s (i + 1) - i) = Suc (nat (index_from xs s (i + 1) - (i + 1)))"
      using ih(1) by linarith
    with False ih show ?thesis by simp
  qed
qed

lemma indexOf_absent: "(indexOf xs v = - 1) = (\<not> js_includes xs v)"
  by (cases v) (simp_all add: indexOf_def js_includes_def index_from_absent)

lemma indexOf_present:
  "js_includes xs v \<Longrightarrow> 0 \<le> indexOf xs v \<and> indexOf xs v < int (length xs)
     \<and> JStr (xs ! nat (indexOf xs v)) = v"
  using index_from_present[of _ xs 0]
  by (cases v) (auto simp: indexOf_def js_includes_def)

lemma order_of_enums:
  "order_of Difficulty = GameDifficulty"
  "order_of Status = GameStatus @ [''Abandonado'']"
  by (simp_all add: order_of_def difficultyOrder_def GameDifficulty_def statusOrder_def GameStatus_def)

text \<open>
  C5 (as amended). Sorting ascending by status or by difficulty orders the records by the
  position of their value in the order list of \<^verbatim>\<open>sortGames\<close> itself: the eighteen values
  of \<open>GameDifficulty\<close> for the difficulty, and for the status the four values of
  \<open>GameStatus\<close> followed by "Abandonado". A value in the list has its index as rank, a
  value absent from the list has rank -1, the result is a permutation of the input sorted
  by rank, and so no record with an absent value comes after a record with a listed one.
\<close>

theorem sortGames_by_order_rank:
  assumes "c = Status \<or> c = Difficulty" and "sortColumn st = Some c" and "sortDirection st = Asc"
  shows "\<exists>ys. sortGames st gs = Inr ys \<and> mset ys = mset gs
           \<and> sorted (map (enum_rank c) ys)
           \<and> (\<forall>g \<in> set gs. if js_includes (order_of c) (game_field c g)
                  then 0 \<le> enum_rank c g \<and> enum_rank c g < int (length (order_of c))
                       \<and> JStr (order_of c ! nat (enum_rank c g)) = game_field c g
                  else enum_rank c g = - 1)
           \<and> (\<forall>i j. i < j \<and> j < length ys
                  \<and> \<not> js_includes (order_of c) (game_field c (ys ! j))
                  \<longrightarrow> \<not> js_includes (order_of c) (game_field c (ys ! i)))"
proof -
  have cmp: "compare_games c Asc = by_key (enum_rank c)"
    using assms(1) by (rule compare_games_enum)
  have sg: "sortGames st gs = array_sort (by_key (enum_rank c)) gs"
    by (simp add: sortGames_def assms cmp)
  obtain ys where ys: "array_sort (by_key (enum_rank c)) gs = Inr ys"
    using array_sort_total[of gs "by_key (enum_rank c)"] by (auto simp: by_key_def)
  have srt: "sorted (map (enum_rank c) ys)" using ys by (rule array_sort_key_sorted)
  have rk: "\<And>g. if js_includes (order_of c) (game_field c g)
                  then 0 \<le> enum_rank c g \<and> enum_rank c g < int (length (order_of c))
                       \<and> JStr (order_of c ! nat (enum_rank c g)) = game_field c g
                  else enum_rank c g = - 1"
    using indexOf_present[of "order_of c"] indexOf_absent[of "order_of c"]
    by (auto simp: enum_rank_def)
  have ord: "\<not> js_includes (order_of c) (game_field c (ys ! i))"
    if "i < j" "j < length ys" "\<not> js_includes (order_of c) (game_field c (ys ! j))" for i j
  proof
    assume inc: "js_includes (order_of c) (game_field c (ys ! i))"
    have "enum_rank c (ys ! i) \<le> enum_rank c (ys ! j)"
      using srt that(1,2) by (simp add: sorted_iff_nth_mono)
    moreover have "enum_rank c (ys ! j) = - 1" using rk[of "ys ! j"] that(3) by simp
    moreover have "0 \<le> enum_rank c (ys ! i)" using rk[of "ys ! i"] inc by simp
    ultimately show False by simp
  qed
  show ?thesis
    using sg ys array_sort_mset[OF ys] srt rk ord by auto
qed

theorem sortGames_by_order_rank_witness:
  "(Status = Status \<or> Status = Difficulty)
   \<and> sortColumn (state1\<lparr>sortColumn := Some Status\<rparr>) = Some Status
   \<and> sortDirection (state1\<lparr>sortColumn := Some Status\<rparr>) = Asc
   \<and> (\<exists>ys. sortGames (state1\<lparr>sortColumn := Some Status\<rparr>)
               [game3, game2, game1\<lparr>g_status := JStr ''Unknown''\<rparr>] = Inr ys
         \<and> ys = [game1\<lparr>g_status := JStr ''Unknown''\<rparr>, game2, game3]
         \<and> sorted (map (enum_rank Status) ys)
         \<and> map (enum_rank Status) ys = [- 1, 3, 4])"
proof -
  let ?st = "state1\<lparr>sortColumn := Some Status\<rparr>"
  let ?u = "game1\<lparr>g_status := JStr ''Unknown''\<rparr>"
  have h1: "Status = Status \<or> Status = Difficulty" by simp
  have h2: "sortColumn ?st = Some Status" by simp
  have h3: "sortDirection ?st = Asc" by (simp add: state1_def)
  have r: "enum_rank Status ?u = - 1" "enum_rank Status game2 = 3" "enum_rank Status game3 = 4"
    by (simp_all add: enum_rank_def order_of_def statusOrder_def indexOf_def game_field_def
        game1_def game2_def game3_def)
  have e: "sortGames ?st [game3, game2, ?u] = Inr [?u, game2, game3]"
    by (simp add: sortGames_def state1_def compare_games_enum by_key_def r)
  show ?thesis
    using h1 h2 h3 e r sortGames_by_order_rank [OF h1 h2 h3, of "[game3, game2, ?u]"]
    by simp
qed

theorem sortGames_abandonado_counterexample:
  "\<not> js_includes GameStatus (g_status game3)
   \<and> js_includes GameStatus (g_status game2)
   \<and> indexOf statusOrder (g_status game3) = 4
   \<and> sortGames (state1\<lparr>sortColumn := Some Status\<rparr>) [game3, game2] = Inr [game2, game3]"
proof -
  have r: "enum_rank Status game2 = 3" "enum_rank Status game3 = 4"
    by (simp_all add: enum_rank_def order_of_def statusOrder_def indexOf_def game_field_def
        game2_def game3_def)
  have e: "sortGames (state1\<lparr>sortColumn := Some Status\<rparr>) [game3, game2] = Inr [game2, game3]"
    by (simp add: sortGames_def state1_def compare_games_enum by_key_def r)
  have m: "\<not> js_includes GameStatus (g_status game3)" "js_includes GameStatus (g_status game2)"
      "indexOf statusOrder (g_status game3) = 4"
    by (simp_all add: js_includes_def GameStatus_def game2_def game3_def indexOf_def statusOrder_def)
  show ?thesis using e m by simp
qed

subsection \<open>Pagination\<close>

lemma Math_ceil_div_int: "Math_ceil_div n d = - ((- int n) div int d)"
proof -
  have "\<lceil>real n / real d\<rceil> = \<lceil>real_of_int (int n) / real_of_int (int d)\<rceil>" by simp
  also have "\<dots> = - ((- int n) div int d)" by (rule ceiling_divide_eq_div)
  finally show ?thesis by (simp add: Math_ceil_div_def)
qed

lemma Math_ceil_div_10: "Math_ceil_div n 10 = (int n + 9) div 10"
  by (simp add: Math_ceil_div_int)

lemma getTotalPages_Some:
  "activeTabObj st = Some t \<Longrightarrow> getTotalPages st = (int (length (t_games t)) + 9) div 10"
  by (simp add: getTotalPages_def ROWS_PER_PAGE_def Math_ceil_div_10)

lemma js_slice_page:
  "js_slice xs (int k * 10) (int k * 10 + 10) = take 10 (drop (k * 10) xs)"
proof -
  have a: "clamp_index (int k * 10) (length xs) = min (k * 10) (length xs)"
    by (simp add: clamp_index_def nat_mult_distrib)
  have b: "clamp_index (int k * 10 + 10) (length xs) = min (k * 10 + 10) (length xs)"
    by (simp add: clamp_index_def nat_add_distrib nat_mult_distrib)
  show ?thesis
    unfolding js_slice_def Let_def a b
    by (cases "k * 10 \<le> length xs") (auto simp: min_def)
qed


lemma activeTabObj_currentPage [simp]:
  "activeTabObj (st\<lparr>currentPage := p\<rparr>) = activeTabObj st"
  by (simp add: activeTabObj_def split: option.splits)

lemma gamesToDisplay_page:
  assumes "activeTabObj st = Some t" and "sortGames st (t_games t) = Inr sortedGames" and "1 \<le> p"
  shows "gamesToDisplay (st\<lparr>currentPage := p\<rparr>)
           = Inr (Some (take 10 (drop (nat (p - 1) * 10) sortedGames)))"
proof -
  have a: "activeTabObj (st\<lparr>currentPage := p\<rparr>) = Some t"
    using assms(1) by simp
  have s: "sortGames (st\<lparr>currentPage := p\<rparr>) (t_games t) = Inr sortedGames"
    using assms(2) sortGames_cong[of "st\<lparr>currentPage := p\<rparr>" st] by simp
  have p: "p - 1 = int (nat (p - 1))" using assms(3) by simp
  have "js_slice sortedGames ((p - 1) * 10) ((p - 1) * 10 + 10)
          = take 10 (drop (nat (p - 1) * 10) sortedGames)"
    by (subst (1 2) p) (rule js_slice_page)
  then have js: "js_slice sortedGames ((p - 1) * int ROWS_PER_PAGE)
                   ((p - 1) * int ROWS_PER_PAGE + int ROWS_PER_PAGE)
                 = take 10 (drop (nat (p - 1) * 10) sortedGames)"
    by (simp add: ROWS_PER_PAGE_def)
  show ?thesis
    unfolding gamesToDisplay_def a Let_def by (simp add: s js)
qed

text \<open>
  C2 (as amended). With \<open>n\<close> records in the active tab and the page size 10, the number
  of pages is \<open>ceil(n / 10)\<close>: 0 when the tab is empty and \<open>max(1, ceil(n / 10))\<close>
  otherwise. For every page number \<open>p\<close> that \<^verbatim>\<open>setPage\<close> accepts (from 1 to the number of
  pages) the rows rendered are the sorted records at the indices from \<open>(p - 1) * 10\<close> up to
  \<open>p * 10\<close>, cut at the end of the list: \<open>min(10, n - (p - 1) * 10)\<close> rows, at least
  one. An empty tab has no page number that \<^verbatim>\<open>setPage\<close> accepts, and its page 1 shows no
  rows.
\<close>

theorem pagination_pages_and_slice:
  assumes "activeTabObj st = Some t" and "sortGames st (t_games t) = Inr sortedGames"
  shows "getTotalPages st = \<lceil>real (length (t_games t)) / 10\<rceil>
       \<and> getTotalPages st = (if length (t_games t) = 0 then 0
                              else max 1 \<lceil>real (length (t_games t)) / 10\<rceil>)
       \<and> (\<forall>p. 1 \<le> p \<and> p \<le> getTotalPages st \<longrightarrow>
             setPage p st = Returned (emit
                 [RenderTable (Some (take 10 (drop (nat (p - 1) * 10) sortedGames)))]
                 (st\<lparr>currentPage := p\<rparr>))
             \<and> length (take 10 (drop (nat (p - 1) * 10) sortedGames))
                 = min 10 (length (t_games t) - nat (p - 1) * 10)
             \<and> take 10 (drop (nat (p - 1) * 10) sortedGames) \<noteq> [])
       \<and> (length (t_games t) = 0 \<longrightarrow>
             (\<forall>p. setPage p st = Returned st)
             \<and> gamesToDisplay (st\<lparr>currentPage := 1\<rparr>) = Inr (Some []))"
proof -
  let ?n = "length (t_games t)"
  have len: "length sortedGames = ?n"
    using assms(2) by (auto simp: sortGames_def split: option.splits dest: array_sort_length)
  have tp: "getTotalPages st = (int ?n + 9) div 10"
    using assms(1) by (rule getTotalPages_Some)
  have c1: "getTotalPages st = \<lceil>real ?n / 10\<rceil>"
    using assms(1) by (simp add: getTotalPages_def ROWS_PER_PAGE_def Math_ceil_div_def)
  have c2: "getTotalPages st = (if ?n = 0 then 0 else max 1 \<lceil>real ?n / 10\<rceil>)"
  proof (cases "?n = 0")
    case True
    then show ?thesis using tp by simp
  next
    case False
    then have "1 \<le> (int ?n + 9) div 10" by linarith
    then show ?thesis using False tp c1 by simp
  qed
  have c3: "setPage p st = Returned (emit
                 [RenderTable (Some (take 10 (drop (nat (p - 1) * 10) sortedGames)))]
                 (st\<lparr>currentPage := p\<rparr>))
             \<and> length (take 10 (drop (nat (p - 1) * 10) sortedGames))
                 = min 10 (?n - nat (p - 1) * 10)
             \<and> take 10 (drop (nat (p - 1) * 10) sortedGames) \<noteq> []"
    if "1 \<le> p" "p \<le> getTotalPages st" for p
  proof -
    have lt: "nat (p - 1) * 10 < ?n" using that tp by linarith
    have "setPage p st = render (st\<lparr>currentPage := p\<rparr>)"
      using that by (simp add: setPage_def)
    also have "\<dots> = Returned (emit
                 [RenderTable (Some (take 10 (drop (nat (p - 1) * 10) sortedGames)))]
                 (st\<lparr>currentPage := p\<rparr>))"
      by (simp add: render_def gamesToDisplay_page[OF assms that(1)])
    finally show ?thesis using lt len by (auto simp: min_def)
  qed
  have c4: "(\<forall>p. setPage p st = Returned st)
             \<and> gamesToDisplay (st\<lparr>currentPage := 1\<rparr>) = Inr (Some [])" if "?n = 0"
  proof -
    have "getTotalPages st = 0" using tp that by simp
    then have "\<forall>p. setPage p st = Returned st" by (auto simp: setPage_def)
    moreover have "gamesToDisplay (st\<lparr>currentPage := 1\<rparr>) = Inr (Some [])"
      using gamesToDisplay_page[OF assms, of 1] len that by simp
    ultimately show ?thesis by simp
  qed
  show ?thesis using c1 c2 c3 c4 by blast
qed


theorem pagination_pages_and_slice_witness:
  "activeTabObj (state1\<lparr>tabsData := [tab1\<lparr>t_games := replicate 11 game1\<rparr>]\<rparr>)
     = Some (tab1\<lparr>t_games := replicate 11 game1\<rparr>)
   \<and> sortGames (state1\<lparr>tabsData := [tab1\<lparr>t_games := replicate 11 game1\<rparr>]\<rparr>)
        (t_games (tab1\<lparr>t_games := replicate 11 game1\<rparr>)) = Inr (replicate 11 game1)
   \<and> getTotalPages (state1\<lparr>tabsData := [tab1\<lparr>t_games := replicate 11 game1\<rparr>]\<rparr>) = 2
   \<and> (1 \<le> (2::int) \<and> 2 \<le> getTotalPages (state1\<lparr>tabsData := [tab1\<lparr>t_games := replicate 11 game1\<rparr>]\<rparr>))
   \<and> setPage 2 (state1\<lparr>tabsData := [tab1\<lparr>t_games := replicate 11 game1\<rparr>]\<rparr>)
       = Returned (emit [RenderTable (Some [game1])]
           (state1\<lparr>tabsData := [tab1\<lparr>t_games := replicate 11 game1\<rparr>], currentPage := 2\<rparr>))
   \<and> length (take 10 (drop (nat (2 - 1) * 10) (replicate 11 game1))) = min 10 (11 - 10)"
proof -
  let ?t = "tab1\<lparr>t_games := replicate 11 game1\<rparr>"
  let ?st = "state1\<lparr>tabsData := [?t]\<rparr>"
  have h1: "activeTabObj ?st = Some ?t" by (simp add: activeTabObj_def state1_def)
  have h2: "sortGames ?st (t_games ?t) = Inr (replicate 11 game1)"
    by (simp add: sortGames_def state1_def)
  have tp: "getTotalPages ?st = 2" using getTotalPages_Some[OF h1] by simp
  have sl: "take 10 (drop (nat (2 - 1) * 10) (replicate 11 game1)) = [game1]" by simp
  show ?thesis
    using h1 h2 tp pagination_pages_and_slice [OF h1 h2] sl by simp
qed

theorem getTotalPages_empty_counterexample:
  "activeTabObj (state1\<lparr>tabsData := [tab1\<lparr>t_games := []\<rparr>]\<rparr>) = Some (tab1\<lparr>t_games := []\<rparr>)
   \<and> getTotalPages (state1\<lparr>tabsData := [tab1\<lparr>t_games := []\<rparr>]\<rparr>) = 0
   \<and> max 1 \<lceil>real (length (t_games (tab1\<lparr>t_games := []\<rparr>))) / 10\<rceil> = (1::int)"
proof -
  have h1: "activeTabObj (state1\<lparr>tabsData := [tab1\<lparr>t_games := []\<rparr>]\<rparr>) = Some (tab1\<lparr>t_games := []\<rparr>)"
    by (simp add: activeTabObj_def state1_def)
  show ?thesis using h1 getTotalPages_Some[OF h1] by simp
qed

subsection \<open>Import: the shape test\<close>

lemma tab_shape_group_shaped:
  "tab_shape t = Inr True \<longleftrightarrow> group_shaped t"
  by (auto simp: tab_shape_def group_shaped_def)

lemma every_tab_shape_True:
  "every_tab_shape ts = Inr True \<longleftrightarrow> (\<forall>t \<in> set ts. group_shaped t)"
proof (induction ts)
  case Nil
  then show ?case by simp
next
  case (Cons t ts)
  then show ?case
    using tab_shape_group_shaped[of t]
    by (cases "tab_shape t") (auto split: if_splits)
qed

lemma emit_only_effects: "(emit es st)\<lparr>effects := effects st\<rparr> = st"
  by (simp add: emit_def)

text \<open>
  C7. When the parsed document is not an array whose elements all have the shape of a tab
  (truthy id, truthy name, an array of games), the import reports an error, either the
  alert of the format test or that of the \<^verbatim>\<open>catch\<close> block (an element that is \<^verbatim>\<open>null\<close>
  makes the test throw), and the state differs from the one before only by that report:
  tabs, games, active tab and every other variable are untouched, nothing is saved.
\<close>

theorem import_bad_shape_rejected:
  assumes "\<not> (\<exists>ts. d = JArr ts \<and> (\<forall>t \<in> set ts. group_shaped t))"
  shows "(importJson now confirmed (Inr d) st = emit [Alert format_error] st
          \<or> importJson now confirmed (Inr d) st = import_catch st)
       \<and> (importJson now confirmed (Inr d) st)\<lparr>effects := effects st\<rparr> = st
       \<and> tabsData (importJson now confirmed (Inr d) st) = tabsData st
       \<and> activeTabId (importJson now confirmed (Inr d) st) = activeTabId st"
proof -
  have "importJson now confirmed (Inr d) st = emit [Alert format_error] st
          \<or> importJson now confirmed (Inr d) st = import_catch st"
  proof (cases d)
    case (JArr ts)
    with assms have "every_tab_shape ts \<noteq> Inr True" by (simp add: every_tab_shape_True)
    then show ?thesis
      by (cases "every_tab_shape ts") (auto simp: importJson_def JArr)
  qed (simp_all add: importJson_def)
  then show ?thesis
    by (auto simp: import_catch_def emit_only_effects)
qed

theorem import_bad_shape_rejected_witness:
  "\<not> (\<exists>ts. JObj [(''id'', JStr ''a''), (''name'', JStr ''L''), (''games'', JArr [])] = JArr ts
          \<and> (\<forall>t \<in> set ts. group_shaped t))
   \<and> importJson 0 True (Inr (JObj [(''id'', JStr ''a''), (''name'', JStr ''L''), (''games'', JArr [])])) state1
       = emit [Alert format_error] state1
   \<and> tabsData (importJson 0 True (Inr (JObj [(''id'', JStr ''a''), (''name'', JStr ''L''), (''games'', JArr [])])) state1)
       = [tab1]"
proof -
  let ?d = "JObj [(''id'', JStr ''a''), (''name'', JStr ''L''), (''games'', JArr [])]"
  have h: "\<not> (\<exists>ts. ?d = JArr ts \<and> (\<forall>t \<in> set ts. group_shaped t))" by simp
  have e: "importJson 0 True (Inr ?d) state1 = emit [Alert format_error] state1"
    by (simp add: importJson_def)
  show ?thesis
    using h e import_bad_shape_rejected [OF h, of 0 True state1]
    by (simp add: state1_def)
qed

subsection \<open>Import: the games\<close>

lemma warns_of_append [simp]: "warns_of (a @ b) = warns_of a @ warns_of b"
  by (simp add: warns_of_def)

lemma warns_of_simps [simp]:
  "warns_of [] = []"
  "warns_of (ConsoleWarn msg errs # es) = errs @ warns_of es"
  "warns_of (Alert m # es) = warns_of es"
  "warns_of (Confirm a b # es) = warns_of es"
  "warns_of (Saved ts # es) = warns_of es"
  "warns_of (RenderTabs ts i # es) = warns_of es"
  "warns_of (RenderTable rows # es) = warns_of es"
  "warns_of (ConsoleError m # es) = warns_of es"
  by (simp_all add: warns_of_def)

lemma stringable_simps [simp]:
  "stringable (JStr s)" "stringable JUndefined" "stringable JNull" "stringable (JBool b)"
  "stringable (JNum n)"
  by (simp_all add: stringable_def)

lemma stringable_js_or: "stringable v \<Longrightarrow> stringable d \<Longrightarrow> stringable (js_or v d)"
  by (simp add: js_or_def)

lemma stringable_text: "stringable v \<Longrightarrow> \<exists>s. to_string v = Inr s"
  by (cases "to_string v") (simp_all add: stringable_def)

lemma GameRow_new_shaped:
  assumes "record_shaped g"
  shows "\<exists>r. GameRow_new now g = Inr r
           \<and> row_status r = js_or (get_prop g ''status'') (JStr (GameStatus ! 0))
           \<and> (\<exists>s. row_title r = JStr s)
           \<and> (\<exists>b. title_blank (row_title r) = Inr b)
           \<and> stringable (row_status r) \<and> stringable (row_note r) \<and> stringable (row_difficulty r)"
proof -
  have t: "case get_prop g ''title'' of JStr s \<Rightarrow> True | v \<Rightarrow> \<not> truthy v"
    using assms by (simp add: record_shaped_def)
  then have "\<exists>s. js_or (get_prop g ''title'') (JStr []) = JStr s"
    by (cases "get_prop g ''title''") (auto simp: js_or_def)
  then obtain s where s: "js_or (get_prop g ''title'') (JStr []) = JStr s" ..
  have f: "stringable (js_or (get_prop g ''status'') (JStr (GameStatus ! 0)))"
      "stringable (js_or (get_prop g ''note'') (JStr (GameNote ! 0)))"
      "stringable (js_or (get_prop g ''difficulty'') (JStr (GameDifficulty ! 0)))"
    using assms by (simp_all add: record_shaped_def stringable_js_or)
  have "g \<noteq> JNull" using assms by (simp add: record_shaped_def)
  then show ?thesis
    using s f by (cases "g = JUndefined") (auto simp: GameRow_new_def Let_def title_blank_def)
qed

lemma validate_shaped:
  assumes "title_blank (row_title r) = Inr b" and "to_string (row_status r) = Inr s"
    and "stringable (row_note r)" and "stringable (row_difficulty r)"
  shows "\<exists>ok errs. validate r = Inr (ok, errs)
           \<and> (\<not> isValidStatus (row_status r) \<longrightarrow> \<not> ok \<and> status_error s \<in> set errs)"
proof -
  obtain n d where n: "to_string (row_note r) = Inr n" and d: "to_string (row_difficulty r) = Inr d"
    using assms(3,4) stringable_text by blast
  show ?thesis
    by (auto simp: validate_def check_field_def interpolate_def isValidNote_def Let_def
        status_error_def assms(1,2) n d)
qed

lemma import_game_shaped:
  assumes "record_shaped g"
  shows "\<exists>w j. import_game now g = (w, Inr j)
           \<and> g_status j = js_or (get_prop g ''status'') (JStr (GameStatus ! 0))
           \<and> sortable j
           \<and> (\<forall>s. \<not> isValidStatus (g_status j) \<and> to_string (g_status j) = Inr s
                  \<longrightarrow> status_error s \<in> set (warns_of w))"
proof -
  obtain r b where r: "GameRow_new now g = Inr r"
      "row_status r = js_or (get_prop g ''status'') (JStr (GameStatus ! 0))"
      "\<exists>s. row_title r = JStr s" "title_blank (row_title r) = Inr b"
      "stringable (row_status r)" "stringable (row_note r)" "stringable (row_difficulty r)"
    using GameRow_new_shaped[OF assms] by blast
  obtain s where s: "to_string (row_status r) = Inr s"
    using r(5) stringable_text by blast
  obtain ok errs where v: "validate r = Inr (ok, errs)"
      "\<not> isValidStatus (row_status r) \<longrightarrow> \<not> ok \<and> status_error s \<in> set errs"
    using validate_shaped[OF r(4) s r(6,7)] by blast
  have "case get_prop g ''title'' of JStr s \<Rightarrow> True | v \<Rightarrow> \<not> truthy v"
    using assms by (simp add: record_shaped_def)
  then have "stringable (get_prop g ''title'')"
    by (cases "get_prop g ''title''") simp_all
  then obtain ti where ti: "to_string (get_prop g ''title'') = Inr ti"
    using stringable_text by blast
  show ?thesis
  proof (cases ok)
    case True
    then show ?thesis
      using r(1,2,3,6) v s by (auto simp: import_game_def fromJSON_def toJSON_def sortable_def)
  next
    case False
    then show ?thesis
      using r(1,2,3,6) v s ti
      by (auto simp: import_game_def fromJSON_def toJSON_def sortable_def interpolate_def)
  qed
qed

lemma import_games_shaped:
  assumes "\<forall>g \<in> set gs. record_shaped g"
  shows "\<exists>w js. import_games now gs = (w, Inr js) \<and> length js = length gs
           \<and> (\<forall>j \<in> set js. sortable j)
           \<and> (\<forall>i < length gs.
                 g_status (js ! i) = js_or (get_prop (gs ! i) ''status'') (JStr (GameStatus ! 0))
                 \<and> (\<forall>s. \<not> isValidStatus (g_status (js ! i)) \<and> to_string (g_status (js ! i)) = Inr s
                        \<longrightarrow> status_error s \<in> set (warns_of w)))"
  using assms
proof (induction gs)
  case Nil
  then show ?case by simp
next
  case (Cons g gs)
  obtain w j where g: "import_game now g = (w, Inr j)"
      "g_status j = js_or (get_prop g ''status'') (JStr (GameStatus ! 0))"
      "sortable j"
      "\<forall>s. \<not> isValidStatus (g_status j) \<and> to_string (g_status j) = Inr s
           \<longrightarrow> status_error s \<in> set (warns_of w)"
    using import_game_shaped[of g now] Cons.prems by auto
  obtain ws js where gs: "import_games now gs = (ws, Inr js)" "length js = length gs"
      "\<forall>j \<in> set js. sortable j"
      "\<forall>i < length gs.
          g_status (js ! i) = js_or (get_prop (gs ! i) ''status'') (JStr (GameStatus ! 0))
          \<and> (\<forall>s. \<not> isValidStatus (g_status (js ! i)) \<and> to_string (g_status (js ! i)) = Inr s
                 \<longrightarrow> status_error s \<in> set (warns_of ws))"
    using Cons.IH Cons.prems by auto
  have res: "import_games now (g # gs) = (w @ ws, Inr (j # js))"
    using g(1) gs(1) by simp
  have nth: "\<forall>i < length (g # gs).
        g_status ((j # js) ! i) = js_or (get_prop ((g # gs) ! i) ''status'') (JStr (GameStatus ! 0))
        \<and> (\<forall>s. \<not> isValidStatus (g_status ((j # js) ! i)) \<and> to_string (g_status ((j # js) ! i)) = Inr s
               \<longrightarrow> status_error s \<in> set (warns_of (w @ ws)))"
  proof (intro allI impI)
    fix i assume i: "i < length (g # gs)"
    show "g_status ((j # js) ! i) = js_or (get_prop ((g # gs) ! i) ''status'') (JStr (GameStatus ! 0))
        \<and> (\<forall>s. \<not> isValidStatus (g_status ((j # js) ! i)) \<and> to_string (g_status ((j # js) ! i)) = Inr s
               \<longrightarrow> status_error s \<in> set (warns_of (w @ ws)))"
    proof (cases i)
      case 0
      then show ?thesis using g(2) g(4) by auto
    next
      case (Suc k)
      then have "k < length gs" using i by simp
      then show ?thesis using gs(4) Suc by auto
    qed
  qed
  have t: "\<forall>x \<in> set (j # js). sortable x" using gs(3) g(3) by simp
  have l: "length (j # js) = length (g # gs)" using gs(2) by simp
  from res l t nth show ?case by blast
qed


subsection \<open>Sorting does not throw on games that can be compared\<close>

lemma sort_value_ok: "sortable g \<Longrightarrow> \<exists>k. sort_value c g = Inr k"
proof -
  assume a: "sortable g"
  then obtain t where t: "g_title g = JStr t"
    by (cases "g_title g") (simp_all add: sortable_def)
  obtain n where n: "to_string (g_note g) = Inr n"
    using a stringable_text by (auto simp: sortable_def)
  show ?thesis
    by (cases c) (simp_all add: sort_value_def game_field_def js_or_def Let_def parseInt_def t n)
qed

lemma compare_games_ok:
  "sortable a \<Longrightarrow> sortable b \<Longrightarrow> \<exists>r. compare_games c d a b = Inr r"
  using sort_value_ok[of a c] sort_value_ok[of b c]
  by (auto simp: compare_games_def)

lemma sortGames_ok:
  "\<forall>g \<in> set gs. sortable g \<Longrightarrow> \<exists>ys. sortGames st gs = Inr ys"
  by (cases "sortColumn st") (auto simp: sortGames_def intro!: array_sort_total compare_games_ok)

lemma gamesToDisplay_ok:
  assumes "\<forall>t \<in> set (tabsData st). \<forall>g \<in> set (t_games t). sortable g"
  shows "\<exists>rows. gamesToDisplay st = Inr rows"
proof (cases "activeTabObj st")
  case None
  then show ?thesis by (simp add: gamesToDisplay_def)
next
  case (Some t)
  then have "t \<in> set (tabsData st)"
    by (auto simp: activeTabObj_def split: option.splits if_splits)
  then obtain ys where "sortGames st (t_games t) = Inr ys"
    using assms sortGames_ok by blast
  then show ?thesis using Some by (simp add: gamesToDisplay_def Let_def)
qed

lemma render_ok:
  assumes "\<forall>t \<in> set (tabsData st). \<forall>g \<in> set (t_games t). sortable g"
  shows "\<exists>rows. render st = Returned (emit [RenderTable rows] st)"
  using gamesToDisplay_ok[OF assms] by (auto simp: render_def)

lemma updateUI_ok:
  assumes "\<forall>t \<in> set (tabsData st). \<forall>g \<in> set (t_games t). sortable g"
  shows "\<exists>st' rows. updateUI st = Returned st' \<and> tabsData st' = tabsData st
           \<and> activeTabId st' = activeTabId st
           \<and> effects st' = effects st @ [Saved (tabsData st), RenderTabs (tabsData st) (activeTabId st),
                                          RenderTable rows]"
proof -
  let ?st1 = "emit [Saved (tabsData st), RenderTabs (tabsData st) (activeTabId st)] st"
  let ?ref = "findTab (activeTabId st) (tabsData st)"
  let ?st2 = "?st1\<lparr>activeTab := ?ref\<rparr>"
  let ?st3 = "if ?ref \<noteq> None \<and> currentPage ?st2 > getTotalPages ?st2
              then ?st2\<lparr>currentPage := 1\<rparr> else ?st2"
  have u: "updateUI st = render ?st3"
    by (simp add: updateUI_def table_setState_def Let_def)
  have f: "tabsData ?st3 = tabsData st" "activeTabId ?st3 = activeTabId st"
     "effects ?st3 = effects st @ [Saved (tabsData st), RenderTabs (tabsData st) (activeTabId st)]"
    by simp_all
  obtain rows where "render ?st3 = Returned (emit [RenderTable rows] ?st3)"
    using render_ok[of ?st3] assms f(1) by auto
  then show ?thesis using u f by (intro exI[of _ "emit [RenderTable rows] ?st3"] exI[of _ rows]) simp
qed


subsection \<open>Import of a document with an unknown status\<close>

lemma Unknown_invalid: "\<not> isValidStatus (JStr ''Unknown'')"
  by (simp add: isValidStatus_def js_includes_def GameStatus_def)

lemma import_accepted:
  assumes "every_tab_shape ts = Inr True" and "import_tabs now ts = (w, Inr tabs)"
    and "\<forall>t \<in> set tabs. \<forall>g \<in> set (t_games t). sortable g"
  shows "\<exists>rows.
           tabsData (importJson now True (Inr (JArr ts)) st) = tabs
         \<and> activeTabId (importJson now True (Inr (JArr ts)) st)
             = (if length tabs > 0 then t_id (tabs ! 0) else JNull)
         \<and> effects (importJson now True (Inr (JArr ts)) st)
             = effects st @ [Confirm (length (tabsData st)) (length ts)] @ w
               @ [Alert import_success, Saved tabs,
                  RenderTabs tabs (if length tabs > 0 then t_id (tabs ! 0) else JNull),
                  RenderTable rows]"
proof -
  let ?a = "if length tabs > 0 then t_id (tabs ! 0) else JNull"
  let ?st1 = "emit [Confirm (length (tabsData st)) (length ts)] st"
  let ?st2 = "emit (w @ [Alert import_success]) (?st1\<lparr>tabsData := tabs, activeTabId := ?a\<rparr>)"
  have imp: "importJson now True (Inr (JArr ts)) st
               = (case updateUI ?st2 of Returned st3 \<Rightarrow> st3 | Threw e st3 \<Rightarrow> import_catch st3)"
    by (simp add: importJson_def assms(1,2) Let_def)
  have titles: "\<forall>t \<in> set (tabsData ?st2). \<forall>g \<in> set (t_games t). sortable g"
    using assms(3) by simp
  obtain st' rows where st': "updateUI ?st2 = Returned st'" "tabsData st' = tabsData ?st2"
      "activeTabId st' = activeTabId ?st2"
      "effects st' = effects ?st2 @ [Saved (tabsData ?st2), RenderTabs (tabsData ?st2) (activeTabId ?st2),
                                     RenderTable rows]"
    using updateUI_ok[OF titles] by blast
  have res: "importJson now True (Inr (JArr ts)) st = st'"
    using imp st'(1) by simp
  show ?thesis
    unfolding res using st'(2,3,4) by (intro exI[of _ rows]) simp
qed

text \<open>
  C4. Importing a document with one tab, whose name can be shown as text, whose games the
  import can process (none is \<^verbatim>\<open>null\<close>, every title is a string or falsy, every status,
  note and difficulty can be converted to a string) and one of which has the status
  "Unknown", succeeds when the user confirms: the collection becomes that one tab, which
  is made active; the record keeps the status "Unknown", which is not a member of
  \<open>GameStatus\<close>; the success alert is shown and the state is saved and rendered; and among
  the console warnings written during the import is one that lists the message that the
  status "Unknown" is invalid.
\<close>

theorem import_unknown_status_preserved:
  assumes "group_shaped t" and "stringable (get_prop t ''name'')"
    and "get_prop t ''games'' = JArr gs"
    and "\<forall>g \<in> set gs. record_shaped g"
    and "i < length gs" and "get_prop (gs ! i) ''status'' = JStr ''Unknown''"
  shows "\<exists>tb w rows.
           tabsData (importJson now True (Inr (JArr [t])) st) = [tb]
         \<and> t_id tb = get_prop t ''id'' \<and> t_name tb = get_prop t ''name''
         \<and> length (t_games tb) = length gs
         \<and> g_status (t_games tb ! i) = JStr ''Unknown''
         \<and> \<not> isValidStatus (g_status (t_games tb ! i))
         \<and> activeTabId (importJson now True (Inr (JArr [t])) st) = get_prop t ''id''
         \<and> effects (importJson now True (Inr (JArr [t])) st)
             = effects st @ [Confirm (length (tabsData st)) 1] @ w
               @ [Alert import_success, Saved [tb], RenderTabs [tb] (get_prop t ''id''),
                  RenderTable rows]
         \<and> status_error ''Unknown'' \<in> set (warns_of w)"
proof -
  obtain w js where js: "import_games now gs = (w, Inr js)" "length js = length gs"
      "\<forall>j \<in> set js. sortable j"
      "\<forall>i < length gs.
          g_status (js ! i) = js_or (get_prop (gs ! i) ''status'') (JStr (GameStatus ! 0))
          \<and> (\<forall>s. \<not> isValidStatus (g_status (js ! i)) \<and> to_string (g_status (js ! i)) = Inr s
                 \<longrightarrow> status_error s \<in> set (warns_of w))"
    using import_games_shaped[OF assms(4), of now] by blast
  have st_i: "g_status (js ! i) = JStr ''Unknown''"
    using js(4) assms(5,6) by (simp add: js_or_def)
  have warn: "status_error ''Unknown'' \<in> set (warns_of w)"
    using js(4) assms(5) st_i Unknown_invalid by auto
  define tb where "tb = \<lparr> t_id = get_prop t ''id'', t_name = get_prop t ''name'', t_games = js,
      t_rest = (case t of JObj kvs \<Rightarrow> filter (\<lambda>kv. fst kv \<notin> {''id'', ''name'', ''games''}) kvs
                | _ \<Rightarrow> []) \<rparr>"
  have tabs: "import_tabs now [t] = (w, Inr [tb])"
    using js(1) assms(3) by (simp add: import_tab_def tb_def)
  have shape: "every_tab_shape [t] = Inr True"
    by (subst every_tab_shape_True) (simp add: assms(1))
  have titles: "\<forall>t \<in> set [tb]. \<forall>g \<in> set (t_games t). sortable g"
    using js(3) by (simp add: tb_def)
  obtain rows where r: "tabsData (importJson now True (Inr (JArr [t])) st) = [tb]"
     "activeTabId (importJson now True (Inr (JArr [t])) st)
        = (if length [tb] > 0 then t_id ([tb] ! 0) else JNull)"
     "effects (importJson now True (Inr (JArr [t])) st)
        = effects st @ [Confirm (length (tabsData st)) (length [t])] @ w
          @ [Alert import_success, Saved [tb],
             RenderTabs [tb] (if length [tb] > 0 then t_id ([tb] ! 0) else JNull),
             RenderTable rows]"
    using import_accepted[OF shape tabs titles, of st] by blast
  have d: "t_id tb = get_prop t ''id''" "t_name tb = get_prop t ''name''"
     "length (t_games tb) = length gs" "g_status (t_games tb ! i) = JStr ''Unknown''"
    using js(2) st_i by (simp_all add: tb_def)
  show ?thesis
    using r d warn Unknown_invalid
    by (intro exI[of _ tb] exI[of _ w] exI[of _ rows]) simp
qed

theorem import_unknown_status_preserved_witness:
  "group_shaped (JObj [(''id'', JStr ''t1''), (''name'', JStr ''Backlog''),
                       (''games'', JArr [JObj [(''id'', JStr ''g1''), (''title'', JStr ''Doom''),
                                               (''status'', JStr ''Unknown'')]])])
   \<and> stringable (get_prop (JObj [(''id'', JStr ''t1''), (''name'', JStr ''Backlog''),
                       (''games'', JArr [JObj [(''id'', JStr ''g1''), (''title'', JStr ''Doom''),
                                               (''status'', JStr ''Unknown'')]])]) ''name'')
   \<and> get_prop (JObj [(''id'', JStr ''t1''), (''name'', JStr ''Backlog''),
                       (''games'', JArr [JObj [(''id'', JStr ''g1''), (''title'', JStr ''Doom''),
                                               (''status'', JStr ''Unknown'')]])]) ''games''
       = JArr [JObj [(''id'', JStr ''g1''), (''title'', JStr ''Doom''), (''status'', JStr ''Unknown'')]]
   \<and> record_shaped (JObj [(''id'', JStr ''g1''), (''title'', JStr ''Doom''), (''status'', JStr ''Unknown'')])
   \<and> (0::nat) < length [JObj [(''id'', JStr ''g1''), (''title'', JStr ''Doom''), (''status'', JStr ''Unknown'')]]
   \<and> get_prop ([JObj [(''id'', JStr ''g1''), (''title'', JStr ''Doom''), (''status'', JStr ''Unknown'')]] ! 0)
        ''status'' = JStr ''Unknown''
   \<and> (\<exists>tb w rows.
         tabsData (importJson 0 True (Inr (JArr [JObj [(''id'', JStr ''t1''), (''name'', JStr ''Backlog''),
                       (''games'', JArr [JObj [(''id'', JStr ''g1''), (''title'', JStr ''Doom''),
                                               (''status'', JStr ''Unknown'')]])]])) state1) = [tb]
         \<and> g_status (t_games tb ! 0) = JStr ''Unknown''
         \<and> effects (importJson 0 True (Inr (JArr [JObj [(''id'', JStr ''t1''), (''name'', JStr ''Backlog''),
                       (''games'', JArr [JObj [(''id'', JStr ''g1''), (''title'', JStr ''Doom''),
                                               (''status'', JStr ''Unknown'')]])]])) state1)
             = [Confirm 1 1] @ w
               @ [Alert import_success, Saved [tb], RenderTabs [tb] (JStr ''t1''), RenderTable rows]
         \<and> ''Status '' @ [dq] @ ''Unknown'' @ [dq] @ '' '' @ [e_acute] @ '' inv'' @ [a_acute] @ ''lido''
              \<in> set (warns_of w))"
proof -
  let ?g = "JObj [(''id'', JStr ''g1''), (''title'', JStr ''Doom''), (''status'', JStr ''Unknown'')]"
  let ?t = "JObj [(''id'', JStr ''t1''), (''name'', JStr ''Backlog''), (''games'', JArr [?g])]"
  have h1: "group_shaped ?t" by (simp add: group_shaped_def nullish_def)
  have h2: "get_prop ?t ''games'' = JArr [?g]" by simp
  have h3: "\<forall>g \<in> set [?g]. record_shaped g" by (simp add: record_shaped_def)
  have h4: "(0::nat) < length [?g]" by simp
  have h5: "get_prop ([?g] ! 0) ''status'' = JStr ''Unknown''" by simp
  have h6: "stringable (get_prop ?t ''name'')" by simp
  have e: "status_error ''Unknown''
             = ''Status '' @ [dq] @ ''Unknown'' @ [dq] @ '' '' @ [e_acute] @ '' inv'' @ [a_acute] @ ''lido''"
    by (simp add: status_error_def)
  have s: "effects state1 = []" "length (tabsData state1) = 1" by (simp_all add: state1_def)
  show ?thesis
    using h1 h2 h3 h4 h5 h6 import_unknown_status_preserved [OF h1 h6 h2 h3 h4 h5, of 0 state1]
    by (simp add: e s) blast
qed

lemma is_space_eval:
  "is_space c = (c \<in> set [CHR 0x09, CHR 0x0A, CHR 0x0B, CHR 0x0C, CHR 0x0D, CHR 0x20, CHR 0xA0])"
  by (cases c) (simp add: is_space_def)

text \<open>
  C3. After an import every adopted record is expected to have a status, a note and a
  difficulty from the enumerations. The constructor copies whatever truthy value the
  document has, and \<^verbatim>\<open>validate\<close> only reports: a record imported with the status
  "Unknown", the note "11" and the difficulty "Z" is adopted with exactly these values,
  none of which is a member of its enumeration.
\<close>

theorem import_keeps_out_of_domain_values:
  "tabsData (importJson 0 True
      (Inr (JArr [JObj [(''id'', JStr ''t1''), (''name'', JStr ''Imported''),
                        (''games'', JArr [JObj [(''id'', JStr ''g7''), (''title'', JStr ''Zelda''),
                                                (''status'', JStr ''Unknown''), (''note'', JStr ''11''),
                                                (''difficulty'', JStr ''Z'')]])]]))
      state1)
   = [\<lparr> t_id = JStr ''t1'', t_name = JStr ''Imported'',
        t_games = [\<lparr> g_id = JStr ''g7'', g_title = JStr ''Zelda'', g_status = JStr ''Unknown'',
                     g_note = JStr ''11'', g_difficulty = JStr ''Z'' \<rparr>],
        t_rest = [] \<rparr>]
   \<and> \<not> isValidStatus (JStr ''Unknown'') \<and> isValidNote (JStr ''11'') = Inr False
   \<and> \<not> isValidDifficulty (JStr ''Z'')"
proof -
  let ?g = "JObj [(''id'', JStr ''g7''), (''title'', JStr ''Zelda''), (''status'', JStr ''Unknown''),
                  (''note'', JStr ''11''), (''difficulty'', JStr ''Z'')]"
  let ?t = "JObj [(''id'', JStr ''t1''), (''name'', JStr ''Imported''), (''games'', JArr [?g])]"
  let ?j = "\<lparr> g_id = JStr ''g7'', g_title = JStr ''Zelda'', g_status = JStr ''Unknown'',
              g_note = JStr ''11'', g_difficulty = JStr ''Z'' \<rparr>"
  let ?tb = "\<lparr> t_id = JStr ''t1'', t_name = JStr ''Imported'', t_games = [?j], t_rest = [] \<rparr>"
  have inv: "\<not> isValidStatus (JStr ''Unknown'')" "isValidNote (JStr ''11'') = Inr False"
      "\<not> isValidDifficulty (JStr ''Z'')"
    by (simp_all add: isValidStatus_def isValidNote_def isValidDifficulty_def js_includes_def
        GameStatus_def GameNote_eq GameDifficulty_def)
  have row: "fromJSON 0 ?g = Inr \<lparr> row_id = JStr ''g7'', row_title = JStr ''Zelda'',
      row_status = JStr ''Unknown'', row_note = JStr ''11'', row_difficulty = JStr ''Z'' \<rparr>"
    by (simp add: fromJSON_def GameRow_new_def js_or_def)
  have blank: "title_blank (JStr ''Zelda'') = Inr False"
    by (simp add: title_blank_def trim_def is_space_eval)
  obtain w where g: "import_game 0 ?g = (w, Inr ?j)"
    by (simp add: import_game_def row validate_def check_field_def interpolate_def blank inv
        toJSON_def Let_def)
  have tabs: "import_tabs 0 [?t] = (w, Inr [?tb])"
    by (simp add: import_tab_def g)
  have shape: "every_tab_shape [?t] = Inr True"
    by (simp add: tab_shape_def nullish_def)
  have titles: "\<forall>t \<in> set [?tb]. \<forall>g \<in> set (t_games t). sortable g"
    by (simp add: sortable_def)
  show ?thesis
    using import_accepted[OF shape tabs titles, of state1] inv by auto
qed

subsection \<open>The collection and its active tab\<close>

lemma findIndex_None: "findIndex P xs = None \<longleftrightarrow> (\<forall>x \<in> set xs. \<not> P x)"
  by (induction xs) auto

lemma findIndex_Some:
  "findIndex P xs = Some i \<Longrightarrow> i < length xs \<and> P (xs ! i) \<and> (\<forall>j < i. \<not> P (xs ! j))"
proof (induction xs arbitrary: i)
  case Nil
  then show ?case by simp
next
  case (Cons x xs)
  show ?case
  proof (cases "P x")
    case True
    with Cons.prems show ?thesis by simp
  next
    case False
    with Cons.prems obtain k where k: "findIndex P xs = Some k" "i = Suc k" by auto
    from Cons.IH[OF k(1)] False k(2) show ?thesis
      by (auto simp: less_Suc_eq_0_disj)
  qed
qed

lemma findTab_Some:
  "findTab ident tabs = Some i \<Longrightarrow> i < length tabs \<and> t_id (tabs ! i) = ident"
  by (auto simp: findTab_def strict_eq_def dest: findIndex_Some)

lemma updateUI_fields:
  "tabsData (handler (updateUI st)) = tabsData st"
  "activeTabId (handler (updateUI st)) = activeTabId st"
  by (simp_all add: updateUI_def table_setState_def Let_def handler_render_fields)

text \<open>
  \<^verbatim>\<open>handleDelete\<close> refuses to delete the only tab: it alerts, closes the modals and changes
  nothing else. So does the delete button of the tab bar, which then does not even open
  the modal.
\<close>

lemma handleDelete_sole:
  "length (tabsData st) \<le> 1 \<Longrightarrow>
   handleDelete st = emit [Alert ''Pelo menos uma aba deve permanecer!'', CloseAllModals] st"
  by (simp add: handleDelete_def)

lemma clickDeleteTab_sole:
  "length (tabsData st) \<le> 1 \<Longrightarrow>
   clickDeleteTab ident name st = emit [Alert ''Pelo menos uma aba deve permanecer!''] st"
  by (simp add: clickDeleteTab_def)

text \<open>
  With more than one tab, \<^verbatim>\<open>handleDelete\<close> removes the tab whose id is the one stored when
  the modal was opened, and when that tab was the active one the first of the remaining
  tabs becomes active. The id is a primitive value, as every id the program creates is,
  so that the comparison of ids is the one JavaScript makes.
\<close>

lemma handleDelete_removes:
  assumes "length (tabsData st) > 1" and "primitive (tabToDeleteId st)"
    and "findTab (tabToDeleteId st) (tabsData st) = Some k"
  shows "tabsData (handleDelete st) = take k (tabsData st) @ drop (Suc k) (tabsData st)"
    and "activeTabId (handleDelete st)
           = (if activeTabId st = tabToDeleteId st
              then t_id (hd (take k (tabsData st) @ drop (Suc k) (tabsData st)))
              else activeTabId st)"
proof -
  define tabs' where "tabs' = take k (tabsData st) @ drop (Suc k) (tabsData st)"
  have k: "k < length (tabsData st)" using assms(3) by (simp add: findTab_Some)
  have "length tabs' = length (tabsData st) - 1"
    using k by (simp add: tabs'_def)
  then have ne: "0 < length tabs'" using assms(1) by simp
  then have hd: "tabs' ! 0 = hd tabs'" by (simp add: hd_conv_nth)
  have hdl: "handleDelete st
      = handler (updateUI (emit [CloseAllModals]
          (st\<lparr>tabsData := tabs',
               activeTabId := (if strict_eq (activeTabId st) (tabToDeleteId st)
                               then (if length tabs' > 0 then t_id (tabs' ! 0) else JNull)
                               else activeTabId st)\<rparr>)))"
    using assms unfolding handleDelete_def tabs'_def Let_def by simp
  show "tabsData (handleDelete st) = take k (tabsData st) @ drop (Suc k) (tabsData st)"
    unfolding hdl by (simp add: updateUI_fields tabs'_def)
  have "activeTabId (handleDelete st)
           = (if activeTabId st = tabToDeleteId st then t_id (hd tabs') else activeTabId st)"
    unfolding hdl using ne hd by (simp add: updateUI_fields strict_eq_def)
  then show "activeTabId (handleDelete st)
           = (if activeTabId st = tabToDeleteId st
              then t_id (hd (take k (tabsData st) @ drop (Suc k) (tabsData st)))
              else activeTabId st)"
    by (simp only: tabs'_def)
qed

text \<open>Whatever the ids are, \<^verbatim>\<open>handleDelete\<close> never empties a collection.\<close>

lemma handleDelete_nonempty:
  assumes "tabsData st \<noteq> []"
  shows "tabsData (handleDelete st) \<noteq> []"
proof (cases "length (tabsData st) \<le> 1")
  case True
  then show ?thesis using assms by (simp add: handleDelete_sole)
next
  case False
  show ?thesis
  proof (cases "findTab (tabToDeleteId st) (tabsData st)")
    case None
    then show ?thesis using assms False by (simp add: handleDelete_def)
  next
    case (Some k)
    define tabs' where "tabs' = take k (tabsData st) @ drop (Suc k) (tabsData st)"
    have k: "k < length (tabsData st)" using Some by (simp add: findTab_Some)
    have "length tabs' = length (tabsData st) - 1"
      using k by (simp add: tabs'_def)
    then have ne: "tabs' \<noteq> []" using False by auto
    have "tabsData (handleDelete st) = tabs'"
      using False Some unfolding handleDelete_def tabs'_def Let_def
      by (simp add: updateUI_fields)
    then show ?thesis using ne by simp
  qed
qed

lemma handleDelete_example:
  "tabsData (handleDelete state2) = [tab2] \<and> activeTabId (handleDelete state2) = t_id tab2"
proof -
  have h: "length (tabsData state2) > 1" "primitive (tabToDeleteId state2)"
      "findTab (tabToDeleteId state2) (tabsData state2) = Some 0"
    by (simp_all add: state2_def state1_def findTab_def strict_eq_def tab1_def primitive_def)
  have t: "tabsData state2 = [tab1, tab2]" "activeTabId state2 = tabToDeleteId state2"
    by (simp_all add: state2_def state1_def)
  show ?thesis using handleDelete_removes[OF h] t by simp
qed

text \<open>
  C6. The collection is expected to hold at least one tab after every operation of the
  controller, and the active id to be the id of one of its tabs. \<^verbatim>\<open>handleDelete\<close> keeps
  to that, but a confirmed import of the document \<^verbatim>\<open>[]\<close> does not: \<^verbatim>\<open>every\<close> holds of an
  empty array, so the document passes the shape test, and from the state whose only tab
  is "Minha Lista" the import leaves a collection with no tab and the active id
  \<^verbatim>\<open>null\<close>, announces success, saves the empty collection and renders it.
\<close>

theorem import_empty_array_empties_collection:
  "tabsData state1 = [tab1]
   \<and> activeTabId state1 = t_id tab1
   \<and> importJson 0 True (Inr (JArr [])) state1
       = state1\<lparr> tabsData := [], activeTabId := JNull, activeTab := None,
                  effects := [Confirm 1 0, Alert import_success, Saved [], RenderTabs [] JNull,
                              RenderTable None] \<rparr>"
  by (simp add: importJson_def updateUI_def table_setState_def render_def gamesToDisplay_def
      activeTabObj_def findTab_def emit_def state1_def tab1_def Let_def)

end
